theory Spec2Isabelle
  imports Complex_Main
begin

section \<open>Values at the JavaScript boundary\<close>

text \<open>
  GPU objects (\<open>WebGLTexture\<close>, \<open>WebGLBuffer\<close>, ...) are JavaScript objects compared by
  identity; a handle is the identity of one such object. \<open>null\<close> is \<open>None\<close>.
\<close>

type_synonym handle = nat

text \<open>
  A JavaScript \<open>number\<close>. The finite values are kept exact, where the source computes
  with doubles: the two agree when the operands and the result are integers below
  \<open>2^53\<close> (what an index queue holds when the queue length is a multiple of the stride),
  and a statement about a computed value is made for that range only. Division by zero
  and the non-finite values are written out.
\<close>

datatype jsnum = Finite rat | PosInfinity | NegInfinity | NaN

fun jsadd :: "jsnum \<Rightarrow> jsnum \<Rightarrow> jsnum" where
  "jsadd NaN _ = NaN"
| "jsadd _ NaN = NaN"
| "jsadd (Finite a) (Finite b) = Finite (a + b)"
| "jsadd PosInfinity NegInfinity = NaN"
| "jsadd NegInfinity PosInfinity = NaN"
| "jsadd PosInfinity _ = PosInfinity"
| "jsadd _ PosInfinity = PosInfinity"
| "jsadd NegInfinity _ = NegInfinity"
| "jsadd _ NegInfinity = NegInfinity"

text \<open>\<open>length / stride\<close> of two non-negative integers, as JavaScript divides them.\<close>

definition jsdiv :: "nat \<Rightarrow> nat \<Rightarrow> jsnum" where
  "jsdiv n s =
     (if s = 0 then (if n = 0 then NaN else PosInfinity)
      else Finite (of_nat n / of_nat s))"

section \<open>The WebGL context\<close>

text \<open>
  The rendering context \<open>gl\<close> comes from the package \<open>@kmamal/gl\<close>. It is modelled as
  the state machine the WebGL API describes, restricted to what the two source files
  touch: the binding points, the viewport, the blend function, the size of each buffer's
  data store, the storage of each texture, and the list of calls made so far.
\<close>

record rect =
  vx :: int
  vy :: int
  vw :: int
  vh :: int

datatype target = ARRAY_BUFFER | ELEMENT_ARRAY_BUFFER

datatype blend_factor =
  ZERO | ONE | DST_COLOR | ONE_MINUS_DST_COLOR | ONE_MINUS_SRC_ALPHA

datatype tex_filter = LINEAR | NEAREST

datatype tex_wrap = REPEAT | CLAMP_TO_EDGE

datatype tex_param =
  TEXTURE_MIN_FILTER tex_filter | TEXTURE_MAG_FILTER tex_filter
  | TEXTURE_WRAP_S tex_wrap | TEXTURE_WRAP_T tex_wrap

text \<open>
  Modelled from the spec: the types \<open>Shader\<close> and \<open>Uniform\<close> of \<open>../assets/shader\<close> are
  not among the sources. The spec takes a shader as an object that exposes \<open>bind\<close>,
  \<open>unbind\<close> and \<open>send\<close> and is compared by identity, and a uniform as a snapshot of
  values compared by deep value. A shader is known here by its identity only. A uniform
  object has an identity (\<open>uid\<close>) and contents (\<open>ufields\<close>); the model assumes nobody
  mutates a uniform object while the renderer holds it.
\<close>

type_synonym shader = nat

record uniform =
  uid :: nat
  ufields :: "string \<rightharpoonup> int list"

text \<open>
  The calls that are recorded, in the order they are made: the calls on \<open>gl\<close> and the
  calls on a shader (\<open>bind\<close>, \<open>send\<close>, \<open>unbind\<close>).
\<close>

datatype call =
  BindTexture "handle option"
  | BindBuffer target "handle option"
  | BindFramebuffer "handle option"
  | BindRenderbuffer "handle option"
  | UseProgram "handle option"
  | SetViewport rect
  | BlendFuncSeparate blend_factor blend_factor blend_factor blend_factor
  | TexImage2D int int
  | TexSubImage2D int int int int "nat list"
  | TexParameteri tex_param
  | PixelStorei
  | BufferData target nat
  | BufferSubData target nat
  | DrawElements nat nat
  | DisableVertexAttribArray nat
  | EnableVertexAttribArray nat
  | VertexAttribPointer nat nat nat nat
  | RenderbufferStorage int int
  | FramebufferTexture2D handle
  | FramebufferRenderbuffer handle
  | ShaderBind shader
  | ShaderSend shader uniform
  | ShaderSendSystem shader int int bool
  | ShaderUnbind shader

record gl_state =
  drawingBufferWidth :: int
  drawingBufferHeight :: int
  MAX_VERTEX_ATTRIBS :: nat
  fresh :: handle
  fails :: "bool list"
  TEXTURE_BINDING_2D :: "handle option"
  ARRAY_BUFFER_BINDING :: "handle option"
  ELEMENT_ARRAY_BUFFER_BINDING :: "handle option"
  FRAMEBUFFER_BINDING :: "handle option"
  RENDERBUFFER_BINDING :: "handle option"
  CURRENT_PROGRAM :: "handle option"
  VIEWPORT :: rect
  blend_func :: "blend_factor \<times> blend_factor \<times> blend_factor \<times> blend_factor"
  BUFFER_SIZE :: "handle \<Rightarrow> nat"
  tex_storage :: "handle \<rightharpoonup> int \<times> int"
  calls :: "call list"

definition emit :: "call \<Rightarrow> gl_state \<Rightarrow> gl_state" where
  "emit e g = g\<lparr>calls := calls g @ [e]\<rparr>"

text \<open>
  \<open>gl.createTexture()\<close>, \<open>gl.createBuffer()\<close>, \<open>gl.createFramebuffer()\<close> and
  \<open>gl.createRenderbuffer()\<close>: each call returns a new object, or \<open>null\<close>. \<open>fails\<close>
  lists the outcomes of the coming calls (\<open>True\<close>: this call returns \<open>null\<close>); once the
  list is used up every call succeeds.
\<close>

definition gl_create :: "gl_state \<Rightarrow> handle option \<times> gl_state" where
  "gl_create g =
     (case fails g of
        [] \<Rightarrow> (Some (fresh g), g\<lparr>fresh := Suc (fresh g)\<rparr>)
      | f # fs \<Rightarrow>
          if f then (None, g\<lparr>fails := fs\<rparr>)
          else (Some (fresh g), g\<lparr>fresh := Suc (fresh g), fails := fs\<rparr>))"

definition bindTexture :: "handle option \<Rightarrow> gl_state \<Rightarrow> gl_state" where
  "bindTexture t g = emit (BindTexture t) (g\<lparr>TEXTURE_BINDING_2D := t\<rparr>)"

definition bindBuffer :: "target \<Rightarrow> handle option \<Rightarrow> gl_state \<Rightarrow> gl_state" where
  "bindBuffer tg b g =
     emit (BindBuffer tg b)
       (case tg of
          ARRAY_BUFFER \<Rightarrow> g\<lparr>ARRAY_BUFFER_BINDING := b\<rparr>
        | ELEMENT_ARRAY_BUFFER \<Rightarrow> g\<lparr>ELEMENT_ARRAY_BUFFER_BINDING := b\<rparr>)"

definition bindFramebuffer :: "handle option \<Rightarrow> gl_state \<Rightarrow> gl_state" where
  "bindFramebuffer b g = emit (BindFramebuffer b) (g\<lparr>FRAMEBUFFER_BINDING := b\<rparr>)"

definition bindRenderbuffer :: "handle option \<Rightarrow> gl_state \<Rightarrow> gl_state" where
  "bindRenderbuffer b g = emit (BindRenderbuffer b) (g\<lparr>RENDERBUFFER_BINDING := b\<rparr>)"

definition useProgram :: "handle option \<Rightarrow> gl_state \<Rightarrow> gl_state" where
  "useProgram p g = emit (UseProgram p) (g\<lparr>CURRENT_PROGRAM := p\<rparr>)"

definition viewport :: "rect \<Rightarrow> gl_state \<Rightarrow> gl_state" where
  "viewport r g = emit (SetViewport r) (g\<lparr>VIEWPORT := r\<rparr>)"

definition blendFuncSeparate ::
  "blend_factor \<Rightarrow> blend_factor \<Rightarrow> blend_factor \<Rightarrow> blend_factor \<Rightarrow> gl_state \<Rightarrow> gl_state" where
  "blendFuncSeparate a b c d g =
     emit (BlendFuncSeparate a b c d) (g\<lparr>blend_func := (a, b, c, d)\<rparr>)"

definition bound_buffer :: "target \<Rightarrow> gl_state \<Rightarrow> handle option" where
  "bound_buffer tg g =
     (case tg of
        ARRAY_BUFFER \<Rightarrow> ARRAY_BUFFER_BINDING g
      | ELEMENT_ARRAY_BUFFER \<Rightarrow> ELEMENT_ARRAY_BUFFER_BINDING g)"

text \<open>\<open>gl.bufferData(target, data, usage)\<close>: a new data store for the bound buffer.\<close>

definition bufferData :: "target \<Rightarrow> nat \<Rightarrow> gl_state \<Rightarrow> gl_state" where
  "bufferData tg bytes g =
     emit (BufferData tg bytes)
       (case bound_buffer tg g of
          None \<Rightarrow> g
        | Some b \<Rightarrow> g\<lparr>BUFFER_SIZE := (BUFFER_SIZE g)(b := bytes)\<rparr>)"

definition bufferSubData :: "target \<Rightarrow> nat \<Rightarrow> gl_state \<Rightarrow> gl_state" where
  "bufferSubData tg bytes g = emit (BufferSubData tg bytes) g"

text \<open>\<open>gl.getBufferParameter(target, gl.BUFFER_SIZE)\<close>; \<open>null\<close> when nothing is bound.\<close>

definition getBufferParameter :: "target \<Rightarrow> gl_state \<Rightarrow> nat option" where
  "getBufferParameter tg g = map_option (BUFFER_SIZE g) (bound_buffer tg g)"

text \<open>\<open>gl.texImage2D(..., w, h, ..., null)\<close>: storage for the bound texture.\<close>

definition texImage2D :: "int \<Rightarrow> int \<Rightarrow> gl_state \<Rightarrow> gl_state" where
  "texImage2D w h g =
     emit (TexImage2D w h)
       (case TEXTURE_BINDING_2D g of
          None \<Rightarrow> g
        | Some t \<Rightarrow>
            if 0 \<le> w \<and> 0 \<le> h then g\<lparr>tex_storage := (tex_storage g)(t \<mapsto> (w, h))\<rparr> else g)"

definition texSubImage2D :: "int \<Rightarrow> int \<Rightarrow> int \<Rightarrow> int \<Rightarrow> nat list \<Rightarrow> gl_state \<Rightarrow> gl_state" where
  "texSubImage2D x y w h d g = emit (TexSubImage2D x y w h d) g"

section \<open>The GPU state stacks (\<open>genStack\<close>, \<open>initGfx\<close>)\<close>

text \<open>
  \<open>genStack(setFunc)\<close> closes over a JavaScript array and returns \<open>push\<close>, \<open>pop\<close> and
  \<open>cur\<close>. The array and the context the callback writes to are passed explicitly.
  An item is \<open>T | null\<close>; \<open>cur()\<close> of an empty array is \<open>undefined\<close>, which
  \<open>cur() ?? null\<close> turns into \<open>null\<close>. \<open>Array.pop\<close> of an empty array does nothing.
\<close>

definition genStack_cur :: "'a option list \<Rightarrow> 'a option" where
  "genStack_cur stack = (if stack = [] then None else last stack)"

definition genStack_push ::
  "('a option \<Rightarrow> gl_state \<Rightarrow> gl_state) \<Rightarrow> 'a option \<Rightarrow>
   'a option list \<times> gl_state \<Rightarrow> 'a option list \<times> gl_state" where
  "genStack_push setFunc item sg =
     (case sg of (stack, g) \<Rightarrow> (stack @ [item], setFunc item g))"

definition genStack_pop ::
  "('a option \<Rightarrow> gl_state \<Rightarrow> gl_state) \<Rightarrow>
   'a option list \<times> gl_state \<Rightarrow> 'a option list \<times> gl_state" where
  "genStack_pop setFunc sg =
     (case sg of (stack, g) \<Rightarrow>
        (butlast stack, setFunc (genStack_cur (butlast stack)) g))"

text \<open>The seven bind callbacks of \<open>initGfx\<close>.\<close>

definition setTexture2D :: "handle option \<Rightarrow> gl_state \<Rightarrow> gl_state" where
  "setTexture2D t g =
     (case t of
        Some h \<Rightarrow> bindTexture (Some h) g
      | None \<Rightarrow> (case gl_create g of (d, g1) \<Rightarrow> bindTexture d g1))"

definition setArrayBuffer :: "handle option \<Rightarrow> gl_state \<Rightarrow> gl_state" where
  "setArrayBuffer b g = (case b of Some h \<Rightarrow> bindBuffer ARRAY_BUFFER (Some h) g | None \<Rightarrow> g)"

definition setElementArrayBuffer :: "handle option \<Rightarrow> gl_state \<Rightarrow> gl_state" where
  "setElementArrayBuffer b g =
     (case b of Some h \<Rightarrow> bindBuffer ELEMENT_ARRAY_BUFFER (Some h) g | None \<Rightarrow> g)"

definition setFramebuffer :: "handle option \<Rightarrow> gl_state \<Rightarrow> gl_state" where
  "setFramebuffer b g = (case b of Some h \<Rightarrow> bindFramebuffer (Some h) g | None \<Rightarrow> g)"

definition setRenderbuffer :: "handle option \<Rightarrow> gl_state \<Rightarrow> gl_state" where
  "setRenderbuffer b g = (case b of Some h \<Rightarrow> bindRenderbuffer (Some h) g | None \<Rightarrow> g)"

definition setViewport :: "rect option \<Rightarrow> gl_state \<Rightarrow> gl_state" where
  "setViewport s g = (case s of None \<Rightarrow> g | Some r \<Rightarrow> viewport r g)"

definition setProgram :: "handle option \<Rightarrow> gl_state \<Rightarrow> gl_state" where
  "setProgram p g = (case p of Some h \<Rightarrow> useProgram (Some h) g | None \<Rightarrow> g)"

type_synonym VertexFormat = "(string \<times> nat) list"

text \<open>
  What a registered teardown action will free. The closure captures the object; the
  model keeps a tag.
\<close>

datatype release = ReleaseTexture handle | ReleaseFrameBuffer

record KAPLAYOpt =
  texFilter :: "tex_filter option"

text \<open>The object \<open>initGfx\<close> returns, with the variables its closures share.\<close>

record GfxCtx =
  gl :: gl_state
  opts :: KAPLAYOpt
  gc :: "release list"
  curVertexFormat :: "VertexFormat option"
  texture2DStack :: "handle option list"
  arrayBufferStack :: "handle option list"
  elementArrayBufferStack :: "handle option list"
  framebufferStack :: "handle option list"
  renderbufferStack :: "handle option list"
  viewportStack :: "rect option list"
  programStack :: "handle option list"

definition onDestroy :: "release \<Rightarrow> GfxCtx \<Rightarrow> GfxCtx" where
  "onDestroy action c = c\<lparr>gc := gc c @ [action]\<rparr>"

definition pushTexture2D :: "handle option \<Rightarrow> GfxCtx \<Rightarrow> GfxCtx" where
  "pushTexture2D item c =
     (case genStack_push setTexture2D item (texture2DStack c, gl c) of
        (s, g) \<Rightarrow> c\<lparr>texture2DStack := s, gl := g\<rparr>)"

definition popTexture2D :: "GfxCtx \<Rightarrow> GfxCtx" where
  "popTexture2D c =
     (case genStack_pop setTexture2D (texture2DStack c, gl c) of
        (s, g) \<Rightarrow> c\<lparr>texture2DStack := s, gl := g\<rparr>)"

definition pushArrayBuffer :: "handle option \<Rightarrow> GfxCtx \<Rightarrow> GfxCtx" where
  "pushArrayBuffer item c =
     (case genStack_push setArrayBuffer item (arrayBufferStack c, gl c) of
        (s, g) \<Rightarrow> c\<lparr>arrayBufferStack := s, gl := g\<rparr>)"

definition popArrayBuffer :: "GfxCtx \<Rightarrow> GfxCtx" where
  "popArrayBuffer c =
     (case genStack_pop setArrayBuffer (arrayBufferStack c, gl c) of
        (s, g) \<Rightarrow> c\<lparr>arrayBufferStack := s, gl := g\<rparr>)"

definition pushElementArrayBuffer :: "handle option \<Rightarrow> GfxCtx \<Rightarrow> GfxCtx" where
  "pushElementArrayBuffer item c =
     (case genStack_push setElementArrayBuffer item (elementArrayBufferStack c, gl c) of
        (s, g) \<Rightarrow> c\<lparr>elementArrayBufferStack := s, gl := g\<rparr>)"

definition popElementArrayBuffer :: "GfxCtx \<Rightarrow> GfxCtx" where
  "popElementArrayBuffer c =
     (case genStack_pop setElementArrayBuffer (elementArrayBufferStack c, gl c) of
        (s, g) \<Rightarrow> c\<lparr>elementArrayBufferStack := s, gl := g\<rparr>)"

definition pushFramebuffer :: "handle option \<Rightarrow> GfxCtx \<Rightarrow> GfxCtx" where
  "pushFramebuffer item c =
     (case genStack_push setFramebuffer item (framebufferStack c, gl c) of
        (s, g) \<Rightarrow> c\<lparr>framebufferStack := s, gl := g\<rparr>)"

definition popFramebuffer :: "GfxCtx \<Rightarrow> GfxCtx" where
  "popFramebuffer c =
     (case genStack_pop setFramebuffer (framebufferStack c, gl c) of
        (s, g) \<Rightarrow> c\<lparr>framebufferStack := s, gl := g\<rparr>)"

definition pushRenderbuffer :: "handle option \<Rightarrow> GfxCtx \<Rightarrow> GfxCtx" where
  "pushRenderbuffer item c =
     (case genStack_push setRenderbuffer item (renderbufferStack c, gl c) of
        (s, g) \<Rightarrow> c\<lparr>renderbufferStack := s, gl := g\<rparr>)"

definition popRenderbuffer :: "GfxCtx \<Rightarrow> GfxCtx" where
  "popRenderbuffer c =
     (case genStack_pop setRenderbuffer (renderbufferStack c, gl c) of
        (s, g) \<Rightarrow> c\<lparr>renderbufferStack := s, gl := g\<rparr>)"

definition pushViewport :: "rect option \<Rightarrow> GfxCtx \<Rightarrow> GfxCtx" where
  "pushViewport item c =
     (case genStack_push setViewport item (viewportStack c, gl c) of
        (s, g) \<Rightarrow> c\<lparr>viewportStack := s, gl := g\<rparr>)"

definition popViewport :: "GfxCtx \<Rightarrow> GfxCtx" where
  "popViewport c =
     (case genStack_pop setViewport (viewportStack c, gl c) of
        (s, g) \<Rightarrow> c\<lparr>viewportStack := s, gl := g\<rparr>)"

definition pushProgram :: "handle option \<Rightarrow> GfxCtx \<Rightarrow> GfxCtx" where
  "pushProgram item c =
     (case genStack_push setProgram item (programStack c, gl c) of
        (s, g) \<Rightarrow> c\<lparr>programStack := s, gl := g\<rparr>)"

definition popProgram :: "GfxCtx \<Rightarrow> GfxCtx" where
  "popProgram c =
     (case genStack_pop setProgram (programStack c, gl c) of
        (s, g) \<Rightarrow> c\<lparr>programStack := s, gl := g\<rparr>)"

definition initGfx :: "gl_state \<Rightarrow> KAPLAYOpt \<Rightarrow> GfxCtx" where
  "initGfx g0 o0 =
     pushViewport
       (Some \<lparr>vx = 0, vy = 0, vw = drawingBufferWidth g0, vh = drawingBufferHeight g0\<rparr>)
       \<lparr>gl = g0, opts = o0, gc = [], curVertexFormat = None,
        texture2DStack = [], arrayBufferStack = [], elementArrayBufferStack = [],
        framebufferStack = [], renderbufferStack = [], viewportStack = [],
        programStack = []\<rparr>"

definition withGl :: "(gl_state \<Rightarrow> gl_state) \<Rightarrow> GfxCtx \<Rightarrow> GfxCtx" where
  "withGl f c = c\<lparr>gl := f (gl c)\<rparr>"

text \<open>
  Modelled from the spec: \<open>deepEq\<close> of \<open>../utils/deepEq\<close> is not among the sources; the
  spec calls it a structural-equality comparator for uniforms and vertex formats. Two
  values are equal when their contents are, whichever objects hold them.
\<close>

definition deepEq_uniform :: "uniform option \<Rightarrow> uniform option \<Rightarrow> bool" where
  "deepEq_uniform a b =
     (case (a, b) of
        (None, None) \<Rightarrow> True
      | (Some u, Some v) \<Rightarrow> ufields u = ufields v
      | _ \<Rightarrow> False)"

definition deepEq_format :: "VertexFormat \<Rightarrow> VertexFormat option \<Rightarrow> bool" where
  "deepEq_format fmt cur = (cur = Some fmt)"

text \<open>\<open>a == b\<close> on \<open>Uniform | null | undefined\<close>: the same object, or neither is one.\<close>

definition same_object :: "uniform option \<Rightarrow> uniform option \<Rightarrow> bool" where
  "same_object a b = (map_option uid a = map_option uid b)"

fun attribs :: "nat \<Rightarrow> nat \<Rightarrow> nat \<Rightarrow> VertexFormat \<Rightarrow> gl_state \<Rightarrow> gl_state" where
  "attribs i st offset [] g = g"
| "attribs i st offset (f # fs) g =
     attribs (Suc i) st (offset + snd f * 4) fs
       (emit (VertexAttribPointer i (snd f) (st * 4) offset)
          (emit (EnableVertexAttribArray i) g))"

definition setVertexFormat :: "VertexFormat \<Rightarrow> GfxCtx \<Rightarrow> GfxCtx" where
  "setVertexFormat fmt c =
     (if deepEq_format fmt (curVertexFormat c) then c
      else
        let c1 = c\<lparr>curVertexFormat := Some fmt\<rparr>;
            st = sum_list (map snd fmt);
            maxAttribs = MAX_VERTEX_ATTRIBS (gl c1);
            c2 = withGl (fold (\<lambda>i. emit (DisableVertexAttribArray i))
                           [length fmt ..< maxAttribs]) c1
        in withGl (attribs 0 st 0 fmt) c2)"

section \<open>Texture\<close>

datatype error = Error string

record TextureOpt =
  filter_opt :: "tex_filter option"
  wrap_opt :: "tex_wrap option"

text \<open>\<open>img.data\<close> is the pixel buffer, or a function that returns it.\<close>

datatype pixels = Raw "nat list" | Lazy "nat list"

record ImageSource =
  img_width :: int
  img_height :: int
  img_data :: pixels

record Texture =
  src :: "ImageSource option"
  glTex :: handle
  width :: int
  height :: int
  allocated :: bool

definition Texture_bind :: "Texture \<Rightarrow> GfxCtx \<Rightarrow> GfxCtx" where
  "Texture_bind t c = pushTexture2D (Some (glTex t)) c"

definition Texture_unbind :: "Texture \<Rightarrow> GfxCtx \<Rightarrow> GfxCtx" where
  "Texture_unbind t c = popTexture2D c"

text \<open>
  \<open>new Texture(ctx, w, h, opt)\<close>. A \<open>throw\<close> is \<open>Inl\<close>, with the context as the
  constructor left it. \<open>w && h\<close> holds when neither number is zero.
\<close>

definition Texture_new ::
  "int \<Rightarrow> int \<Rightarrow> TextureOpt \<Rightarrow> GfxCtx \<Rightarrow> error \<times> GfxCtx + Texture \<times> GfxCtx" where
  "Texture_new w h opt c =
     (case gl_create (gl c) of (glText, g1) \<Rightarrow>
        (case glText of
           None \<Rightarrow> Inl (Error ''[rendering] Failed to create texture'', c\<lparr>gl := g1\<rparr>)
         | Some tx \<Rightarrow>
             let c2 = onDestroy (ReleaseTexture tx) (c\<lparr>gl := g1\<rparr>);
                 t0 = \<lparr>src = None, glTex = tx, width = w, height = h, allocated = False\<rparr>;
                 flt = (case filter_opt opt of
                          Some f \<Rightarrow> f
                        | None \<Rightarrow> (case texFilter (opts c2) of Some f \<Rightarrow> f | None \<Rightarrow> NEAREST));
                 wrp = (case wrap_opt opt of Some v \<Rightarrow> v | None \<Rightarrow> CLAMP_TO_EDGE);
                 c3 = Texture_bind t0 c2;
                 tc = (if w \<noteq> 0 \<and> h \<noteq> 0
                       then (t0\<lparr>allocated := True\<rparr>, withGl (texImage2D w h) c3)
                       else (t0, c3));
                 c5 = withGl (emit (TexParameteri (TEXTURE_MIN_FILTER flt))) (snd tc);
                 c6 = withGl (emit (TexParameteri (TEXTURE_MAG_FILTER flt))) c5;
                 c7 = withGl (emit (TexParameteri (TEXTURE_WRAP_S wrp))) c6;
                 c8 = withGl (emit (TexParameteri (TEXTURE_WRAP_T wrp))) c7;
                 c9 = withGl (emit PixelStorei) c8
             in Inr (fst tc, Texture_unbind (fst tc) c9)))"

text \<open>\<open>tex.update(img, x, y)\<close>; the source's defaults are \<open>x = 0\<close>, \<open>y = 0\<close>.\<close>

definition Texture_update ::
  "ImageSource \<Rightarrow> int \<Rightarrow> int \<Rightarrow> Texture \<times> GfxCtx \<Rightarrow> Texture \<times> GfxCtx" where
  "Texture_update img x y tc =
     (case tc of (t, c) \<Rightarrow>
        let c1 = Texture_bind t c;
            tc2 = (if \<not> allocated t
                   then (t\<lparr>allocated := True\<rparr>,
                         withGl (texImage2D (img_width img) (img_height img)) c1)
                   else (t, c1));
            d = (case img_data img of Raw b \<Rightarrow> b | Lazy b \<Rightarrow> b);
            c3 = withGl (texSubImage2D x y (img_width img) (img_height img) d) (snd tc2)
        in (fst tc2, Texture_unbind (fst tc2) c3))"

definition Texture_fromImage ::
  "ImageSource \<Rightarrow> TextureOpt \<Rightarrow> GfxCtx \<Rightarrow> error \<times> GfxCtx + Texture \<times> GfxCtx" where
  "Texture_fromImage img opt c =
     (case Texture_new (img_width img) (img_height img) opt c of
        Inl e \<Rightarrow> Inl e
      | Inr tc \<Rightarrow>
          (case Texture_update img 0 0 tc of (t, c1) \<Rightarrow> Inr (t\<lparr>src := Some img\<rparr>, c1)))"

section \<open>FrameBuffer\<close>

text \<open>
  \<open>tex\<close> refers to the Texture the constructor made; the record holds that Texture's
  current fields.
\<close>

record FrameBuffer =
  tex :: Texture
  glFramebuffer :: handle
  glRenderbuffer :: handle
  attached :: bool

definition FrameBuffer_width :: "FrameBuffer \<Rightarrow> int" where
  "FrameBuffer_width fb = width (tex fb)"

definition FrameBuffer_height :: "FrameBuffer \<Rightarrow> int" where
  "FrameBuffer_height fb = height (tex fb)"

definition FrameBuffer_bind :: "FrameBuffer \<times> GfxCtx \<Rightarrow> FrameBuffer \<times> GfxCtx" where
  "FrameBuffer_bind fc =
     (case fc of (fb, c) \<Rightarrow>
        let fc1 =
              (if \<not> attached fb then
                 let g1 = bindFramebuffer (Some (glFramebuffer fb)) (gl c);
                     g2 = bindRenderbuffer (Some (glRenderbuffer fb)) g1;
                     g3 = emit (RenderbufferStorage (FrameBuffer_width fb)
                                  (FrameBuffer_height fb)) g2;
                     g4 = emit (FramebufferTexture2D (glTex (tex fb))) g3;
                     g5 = emit (FramebufferRenderbuffer (glRenderbuffer fb)) g4;
                     g6 = bindFramebuffer None g5;
                     g7 = bindRenderbuffer None g6
                 in (fb\<lparr>attached := True\<rparr>, c\<lparr>gl := g7\<rparr>)
               else (fb, c));
            c2 = pushFramebuffer (Some (glFramebuffer fb)) (snd fc1);
            c3 = pushRenderbuffer (Some (glRenderbuffer fb)) c2;
            c4 = pushViewport
                   (Some \<lparr>vx = 0, vy = 0, vw = FrameBuffer_width fb,
                          vh = FrameBuffer_height fb\<rparr>) c3
        in (fst fc1, c4))"

definition FrameBuffer_unbind :: "GfxCtx \<Rightarrow> GfxCtx" where
  "FrameBuffer_unbind c = popViewport (popRenderbuffer (popFramebuffer c))"

definition FrameBuffer_new ::
  "int \<Rightarrow> int \<Rightarrow> TextureOpt \<Rightarrow> GfxCtx \<Rightarrow> error \<times> GfxCtx + FrameBuffer \<times> GfxCtx" where
  "FrameBuffer_new w h opt c =
     (case Texture_new w h opt (onDestroy ReleaseFrameBuffer c) of
        Inl e \<Rightarrow> Inl e
      | Inr (t, c1) \<Rightarrow>
          (case gl_create (gl c1) of (frameBuffer, g2) \<Rightarrow>
             (case gl_create g2 of (renderBuffer, g3) \<Rightarrow>
                (case (frameBuffer, renderBuffer) of
                   (Some f, Some r) \<Rightarrow>
                     let fb0 = \<lparr>tex = t, glFramebuffer = f, glRenderbuffer = r,
                                attached = False\<rparr>
                     in if allocated t then
                          (case FrameBuffer_bind (fb0, c1\<lparr>gl := g3\<rparr>) of (fb1, c4) \<Rightarrow>
                             let c5 = withGl (emit (RenderbufferStorage w h)) c4;
                                 c6 = withGl (emit (FramebufferTexture2D (glTex t))) c5;
                                 c7 = withGl (emit (FramebufferRenderbuffer r)) c6
                             in Inr (fb1\<lparr>attached := True\<rparr>, FrameBuffer_unbind c7))
                        else Inr (fb0, c1\<lparr>gl := g3\<rparr>)
                 | _ \<Rightarrow> Inl (Error ''Failed to create framebuffer'', c1\<lparr>gl := g3\<rparr>)))))"

section \<open>Mesh\<close>

text \<open>
  \<open>glIBuf\<close> is declared \<open>WebGLBuffer\<close>, but it is assigned \<open>gl.createBuffer()!\<close>: the
  assertion is erased when the program is compiled, so the field holds whatever the
  call returned.
\<close>

record Mesh =
  mesh_glVBuf :: handle
  mesh_glIBuf :: "handle option"
  mesh_vertexFormat :: VertexFormat
  mesh_count :: nat

definition Mesh_new ::
  "VertexFormat \<Rightarrow> jsnum list \<Rightarrow> jsnum list \<Rightarrow> GfxCtx \<Rightarrow> error \<times> GfxCtx + Mesh \<times> GfxCtx" where
  "Mesh_new format verts inds c =
     (case gl_create (gl c) of (glVBuf0, g1) \<Rightarrow>
        (case glVBuf0 of
           None \<Rightarrow> Inl (Error ''Failed to create vertex buffer'', c\<lparr>gl := g1\<rparr>)
         | Some vb \<Rightarrow>
             let c1 = pushArrayBuffer (Some vb) (c\<lparr>gl := g1\<rparr>);
                 c2 = withGl (bufferData ARRAY_BUFFER (length verts * 4)) c1;
                 c3 = popArrayBuffer c2
             in (case gl_create (gl c3) of (ib, g4) \<Rightarrow>
                   let c4 = pushElementArrayBuffer ib (c3\<lparr>gl := g4\<rparr>);
                       c5 = withGl (bufferData ELEMENT_ARRAY_BUFFER (length inds * 2)) c4;
                       c6 = popElementArrayBuffer c5
                   in Inr (\<lparr>mesh_glVBuf = vb, mesh_glIBuf = ib,
                             mesh_vertexFormat = format, mesh_count = length inds\<rparr>, c6))))"

section \<open>BatchRenderer\<close>

text \<open>
  Modelled from the spec: the enumeration \<open>BlendMode\<close> of \<open>../types\<close> is not among the
  sources; the spec and the \<open>switch\<close> of \<open>setBlend\<close> name its five modes.
\<close>

datatype BlendMode = Normal | Add | Multiply | Screen | Overlay

text \<open>
  Modelled from the spec: the type \<open>Picture\<close> of \<open>./draw/drawPicture\<close> is not among the
  sources; the spec gives it a vertex array, an index array and an ordered list of
  commands, each a material, the start of an index range and an index count. The fields
  are named as \<open>push\<close> uses them. The material of a command holds \<open>tex || undefined\<close>,
  \<open>shader\<close>, \<open>uniform || undefined\<close> and \<open>blend\<close>; \<open>undefined\<close> is \<open>None\<close>. A Texture
  object is referred to by the handle \<open>glTex\<close> its constructor draws fresh and nothing
  reassigns.
\<close>

record Material =
  m_tex :: "handle option"
  m_shader :: shader
  m_uniform :: "uniform option"
  m_blend :: BlendMode

record Command =
  material :: Material
  index :: nat
  count :: nat

record Picture =
  vertices :: "jsnum list"
  indices :: "jsnum list"
  commands :: "Command list"

record BatchRenderer =
  glVBuf :: handle
  glIBuf :: handle
  vqueue :: "jsnum list"
  iqueue :: "jsnum list"
  stride :: nat
  maxVertices :: nat
  maxIndices :: nat
  vertexFormat :: VertexFormat
  numDraws :: nat
  curPrimitive :: "nat option"
  curTex :: "handle option"
  curShader :: "shader option"
  curUniform :: "uniform option"
  curBlend :: BlendMode
  curFixed :: "bool option"
  picture :: "Picture option"

definition BatchRenderer_new ::
  "VertexFormat \<Rightarrow> nat \<Rightarrow> nat \<Rightarrow> GfxCtx \<Rightarrow> error \<times> GfxCtx + BatchRenderer \<times> GfxCtx" where
  "BatchRenderer_new format maxV maxI c =
     (case gl_create (gl c) of (glVBuf0, g1) \<Rightarrow>
        (case glVBuf0 of
           None \<Rightarrow> Inl (Error ''Failed to create vertex buffer'', c\<lparr>gl := g1\<rparr>)
         | Some vb \<Rightarrow>
             let c1 = pushArrayBuffer (Some vb) (c\<lparr>gl := g1\<rparr>);
                 c2 = withGl (bufferData ARRAY_BUFFER (maxV * 4)) c1;
                 c3 = popArrayBuffer c2
             in (case gl_create (gl c3) of (glIBuf0, g4) \<Rightarrow>
                   (case glIBuf0 of
                      None \<Rightarrow> Inl (Error ''Failed to create index buffer'', c3\<lparr>gl := g4\<rparr>)
                    | Some ib \<Rightarrow>
                        let c4 = pushElementArrayBuffer (Some ib) (c3\<lparr>gl := g4\<rparr>);
                            c5 = withGl (bufferData ELEMENT_ARRAY_BUFFER (maxI * 2)) c4;
                            c6 = popElementArrayBuffer c5
                        in Inr (\<lparr>glVBuf = vb, glIBuf = ib, vqueue = [], iqueue = [],
                                  stride = sum_list (map snd format),
                                  maxVertices = maxV, maxIndices = maxI,
                                  vertexFormat = format, numDraws = 0,
                                  curPrimitive = None, curTex = None, curShader = None,
                                  curUniform = None, curBlend = Normal, curFixed = None,
                                  picture = None\<rparr>, c6)))))"

definition setBlend :: "BlendMode \<Rightarrow> BatchRenderer \<times> GfxCtx \<Rightarrow> BatchRenderer \<times> GfxCtx" where
  "setBlend blend rc =
     (case rc of (r, c) \<Rightarrow>
        if blend \<noteq> curBlend r then
          (r\<lparr>curBlend := blend\<rparr>,
           withGl
             (case blend of
                Normal \<Rightarrow> blendFuncSeparate ONE ONE_MINUS_SRC_ALPHA ONE ONE_MINUS_SRC_ALPHA
              | Add \<Rightarrow> blendFuncSeparate ONE ONE ONE ONE_MINUS_SRC_ALPHA
              | Multiply \<Rightarrow> blendFuncSeparate DST_COLOR ZERO ONE ONE_MINUS_SRC_ALPHA
              | Screen \<Rightarrow> blendFuncSeparate ONE_MINUS_DST_COLOR ONE ONE ONE_MINUS_SRC_ALPHA
              | Overlay \<Rightarrow>
                  blendFuncSeparate DST_COLOR ONE_MINUS_SRC_ALPHA ONE ONE_MINUS_SRC_ALPHA)
             c)
        else (r, c))"

text \<open>
  \<open>flush(width, height)\<close>. \<open>!this.curPrimitive\<close> holds for \<open>null\<close> and for the
  number 0. The shader's \<open>bind\<close>, \<open>send\<close> and \<open>unbind\<close> are methods of
  \<open>../assets/shader\<close>: they are recorded as calls. The reads of \<open>gl.getError()\<close> only
  feed the console and are left out, and \<open>gl.getBufferParameter\<close> is taken to exist.
\<close>

definition flush :: "int \<Rightarrow> int \<Rightarrow> BatchRenderer \<times> GfxCtx \<Rightarrow> BatchRenderer \<times> GfxCtx" where
  "flush w h rc =
     (case rc of (r, c0) \<Rightarrow>
        (case (curPrimitive r, curShader r) of
           (Some prim, Some sh) \<Rightarrow>
             if prim = 0 \<or> vqueue r = [] \<or> iqueue r = [] then (r, c0)
             else
               let c1 = pushArrayBuffer (Some (glVBuf r)) c0;
                   c2 = withGl (bufferSubData ARRAY_BUFFER (length (vqueue r) * 4)) c1;
                   c3 = pushElementArrayBuffer (Some (glIBuf r)) c2;
                   c4 = withGl (bufferSubData ELEMENT_ARRAY_BUFFER
                                  (length (iqueue r) * 2)) c3;
                   c5 = setVertexFormat (vertexFormat r) c4;
                   c6 = withGl (emit (ShaderBind sh)) c5;
                   c7 = (case curUniform r of
                           Some u \<Rightarrow> withGl (emit (ShaderSend sh u)) c6
                         | None \<Rightarrow> c6);
                   c8 = withGl (emit (ShaderSendSystem sh w h (curFixed r = Some True))) c7;
                   c9 = (case curTex r of
                           Some t \<Rightarrow> pushTexture2D (Some t) c8
                         | None \<Rightarrow> c8);
                   arrayBufSize = getBufferParameter ARRAY_BUFFER (gl c9);
                   elemBufSize = getBufferParameter ELEMENT_ARRAY_BUFFER (gl c9);
                   requiredArrayBytes = length (vqueue r) * 4;
                   requiredElemBytes = length (iqueue r) * 2
               in if (case arrayBufSize of Some n \<Rightarrow> n < requiredArrayBytes | None \<Rightarrow> False)
                     \<or> (case elemBufSize of Some n \<Rightarrow> n < requiredElemBytes | None \<Rightarrow> False)
                  then (r, popElementArrayBuffer (popArrayBuffer c9))
                  else
                    let c10 = withGl (emit (DrawElements prim (length (iqueue r)))) c9;
                        c11 = (case curTex r of
                                 Some t \<Rightarrow> popTexture2D c10
                               | None \<Rightarrow> c10);
                        c12 = withGl (emit (ShaderUnbind sh)) c11;
                        c13 = popElementArrayBuffer (popArrayBuffer c12)
                    in (r\<lparr>vqueue := [], iqueue := [], numDraws := numDraws r + 1\<rparr>, c13)
         | _ \<Rightarrow> (r, c0)))"

text \<open>
  \<open>push(primitive, vertices, indices, shader, tex, uniform, blend, width, height, fixed)\<close>.
  With a Picture the data goes to the Picture; otherwise to the queues.
\<close>

definition same_material :: "Material \<Rightarrow> Material \<Rightarrow> bool" where
  "same_material lastMaterial mat =
     (m_tex lastMaterial = m_tex mat
      \<and> m_shader lastMaterial = m_shader mat
      \<and> same_object (m_uniform lastMaterial) (m_uniform mat)
      \<and> m_blend lastMaterial = m_blend mat)"

definition push ::
  "nat \<Rightarrow> jsnum list \<Rightarrow> jsnum list \<Rightarrow> shader \<Rightarrow> handle option \<Rightarrow> uniform option \<Rightarrow>
   BlendMode \<Rightarrow> int \<Rightarrow> int \<Rightarrow> bool \<Rightarrow> BatchRenderer \<times> GfxCtx \<Rightarrow> BatchRenderer \<times> GfxCtx" where
  "push primitive verts inds sh tx uni blend w h fixed rc =
     (case rc of (r, c) \<Rightarrow>
        (case picture r of
           Some p \<Rightarrow>
             let index0 = length (indices p);
                 count0 = length inds;
                 indexOffset = jsdiv (length (vertices p)) (stride r);
                 p1 = p\<lparr>vertices := vertices p @ verts,
                         indices := indices p @ map (\<lambda>i. jsadd i indexOffset) inds\<rparr>;
                 mat = \<lparr>m_tex = tx, m_shader = sh, m_uniform = uni, m_blend = blend\<rparr>
             in if commands p1 \<noteq> []
                   \<and> same_material (material (last (commands p1))) mat
                then
                  let lastCommand = last (commands p1)
                  in (r\<lparr>picture := Some (p1\<lparr>commands :=
                          butlast (commands p1)
                          @ [lastCommand\<lparr>count := count lastCommand + count0\<rparr>]\<rparr>)\<rparr>, c)
                else
                  (r\<lparr>picture := Some (p1\<lparr>commands :=
                        commands p1
                        @ [\<lparr>material = mat, index = index0, count = count0\<rparr>]\<rparr>)\<rparr>, c)
         | None \<Rightarrow>
             (case (if Some primitive \<noteq> curPrimitive r
                       \<or> tx \<noteq> curTex r
                       \<or> Some sh \<noteq> curShader r
                       \<or> (\<not> same_object (curUniform r) uni
                           \<and> \<not> deepEq_uniform (curUniform r) uni)
                       \<or> blend \<noteq> curBlend r
                       \<or> Some fixed \<noteq> curFixed r
                       \<or> length (vqueue r) + length verts > maxVertices r
                       \<or> length (iqueue r) + length inds > maxIndices r
                    then setBlend blend (flush w h (r, c))
                    else (r, c)) of
                (r1, c1) \<Rightarrow>
                  let indexOffset = jsdiv (length (vqueue r1)) (stride r1)
                  in (r1\<lparr>vqueue := vqueue r1 @ verts,
                          iqueue := iqueue r1 @ map (\<lambda>i. jsadd i indexOffset) inds,
                          curPrimitive := Some primitive,
                          curShader := Some sh,
                          curTex := tx,
                          curUniform := uni,
                          curFixed := Some fixed\<rparr>, c1))))"

section \<open>Vocabulary of the properties\<close>

subsection \<open>Sequences of stack calls\<close>

datatype kind =
  KTexture2D | KArrayBuffer | KElementArrayBuffer | KFramebuffer | KRenderbuffer
  | KViewport | KProgram

datatype stack_call =
  PushTexture2D "handle option" | PopTexture2D
  | PushArrayBuffer "handle option" | PopArrayBuffer
  | PushElementArrayBuffer "handle option" | PopElementArrayBuffer
  | PushFramebuffer "handle option" | PopFramebuffer
  | PushRenderbuffer "handle option" | PopRenderbuffer
  | PushViewport "rect option" | PopViewport
  | PushProgram "handle option" | PopProgram

fun run_call :: "stack_call \<Rightarrow> GfxCtx \<Rightarrow> GfxCtx" where
  "run_call (PushTexture2D x) c = pushTexture2D x c"
| "run_call PopTexture2D c = popTexture2D c"
| "run_call (PushArrayBuffer x) c = pushArrayBuffer x c"
| "run_call PopArrayBuffer c = popArrayBuffer c"
| "run_call (PushElementArrayBuffer x) c = pushElementArrayBuffer x c"
| "run_call PopElementArrayBuffer c = popElementArrayBuffer c"
| "run_call (PushFramebuffer x) c = pushFramebuffer x c"
| "run_call PopFramebuffer c = popFramebuffer c"
| "run_call (PushRenderbuffer x) c = pushRenderbuffer x c"
| "run_call PopRenderbuffer c = popRenderbuffer c"
| "run_call (PushViewport x) c = pushViewport x c"
| "run_call PopViewport c = popViewport c"
| "run_call (PushProgram x) c = pushProgram x c"
| "run_call PopProgram c = popProgram c"

definition run_calls :: "stack_call list \<Rightarrow> GfxCtx \<Rightarrow> GfxCtx" where
  "run_calls qs c = fold run_call qs c"

fun call_kind :: "stack_call \<Rightarrow> kind" where
  "call_kind (PushTexture2D x) = KTexture2D"
| "call_kind PopTexture2D = KTexture2D"
| "call_kind (PushArrayBuffer x) = KArrayBuffer"
| "call_kind PopArrayBuffer = KArrayBuffer"
| "call_kind (PushElementArrayBuffer x) = KElementArrayBuffer"
| "call_kind PopElementArrayBuffer = KElementArrayBuffer"
| "call_kind (PushFramebuffer x) = KFramebuffer"
| "call_kind PopFramebuffer = KFramebuffer"
| "call_kind (PushRenderbuffer x) = KRenderbuffer"
| "call_kind PopRenderbuffer = KRenderbuffer"
| "call_kind (PushViewport x) = KViewport"
| "call_kind PopViewport = KViewport"
| "call_kind (PushProgram x) = KProgram"
| "call_kind PopProgram = KProgram"

fun is_push :: "stack_call \<Rightarrow> bool" where
  "is_push PopTexture2D = False"
| "is_push PopArrayBuffer = False"
| "is_push PopElementArrayBuffer = False"
| "is_push PopFramebuffer = False"
| "is_push PopRenderbuffer = False"
| "is_push PopViewport = False"
| "is_push PopProgram = False"
| "is_push _ = True"

fun pop_of :: "kind \<Rightarrow> stack_call" where
  "pop_of KTexture2D = PopTexture2D"
| "pop_of KArrayBuffer = PopArrayBuffer"
| "pop_of KElementArrayBuffer = PopElementArrayBuffer"
| "pop_of KFramebuffer = PopFramebuffer"
| "pop_of KRenderbuffer = PopRenderbuffer"
| "pop_of KViewport = PopViewport"
| "pop_of KProgram = PopProgram"

text \<open>
  What a client of the context can observe as bound for a kind (\<open>gl.getParameter\<close> of
  the binding, or of the viewport), and the items of the stack of that kind.
\<close>

datatype item = Obj handle | Area rect

fun bound_resource :: "kind \<Rightarrow> gl_state \<Rightarrow> item option" where
  "bound_resource KTexture2D g = map_option Obj (TEXTURE_BINDING_2D g)"
| "bound_resource KArrayBuffer g = map_option Obj (ARRAY_BUFFER_BINDING g)"
| "bound_resource KElementArrayBuffer g = map_option Obj (ELEMENT_ARRAY_BUFFER_BINDING g)"
| "bound_resource KFramebuffer g = map_option Obj (FRAMEBUFFER_BINDING g)"
| "bound_resource KRenderbuffer g = map_option Obj (RENDERBUFFER_BINDING g)"
| "bound_resource KViewport g = Some (Area (VIEWPORT g))"
| "bound_resource KProgram g = map_option Obj (CURRENT_PROGRAM g)"

fun stack_items :: "kind \<Rightarrow> GfxCtx \<Rightarrow> item option list" where
  "stack_items KTexture2D c = map (map_option Obj) (texture2DStack c)"
| "stack_items KArrayBuffer c = map (map_option Obj) (arrayBufferStack c)"
| "stack_items KElementArrayBuffer c = map (map_option Obj) (elementArrayBufferStack c)"
| "stack_items KFramebuffer c = map (map_option Obj) (framebufferStack c)"
| "stack_items KRenderbuffer c = map (map_option Obj) (renderbufferStack c)"
| "stack_items KViewport c = map (map_option Area) (viewportStack c)"
| "stack_items KProgram c = map (map_option Obj) (programStack c)"

text \<open>The top of the stack of a kind is an object, and it is the one bound.\<close>

definition top_is_bound :: "kind \<Rightarrow> GfxCtx \<Rightarrow> bool" where
  "top_is_bound k c =
     (stack_items k c \<noteq> [] \<and> last (stack_items k c) \<noteq> None
      \<and> last (stack_items k c) = bound_resource k (gl c))"

subsection \<open>Counting calls\<close>

text \<open>
  What a flush that does its work sends to the GPU: the two uploads (\<open>bufferSubData\<close>)
  and the draw (\<open>drawElements\<close>). \<open>gpu_work\<close> lists these calls in the order made.
\<close>

fun is_upload_or_draw :: "call \<Rightarrow> bool" where
  "is_upload_or_draw (BufferSubData tg n) = True"
| "is_upload_or_draw (DrawElements p n) = True"
| "is_upload_or_draw _ = False"

definition gpu_work :: "GfxCtx \<Rightarrow> call list" where
  "gpu_work c = filter is_upload_or_draw (calls (gl c))"

fun is_texImage2D :: "call \<Rightarrow> bool" where
  "is_texImage2D (TexImage2D w h) = True"
| "is_texImage2D _ = False"

definition allocations :: "GfxCtx \<Rightarrow> nat" where
  "allocations c = length (filter is_texImage2D (calls (gl c)))"

subsection \<open>Submissions\<close>

text \<open>The ten arguments of one \<open>push\<close> call.\<close>

record Submission =
  s_primitive :: nat
  s_vertices :: "jsnum list"
  s_indices :: "jsnum list"
  s_shader :: shader
  s_tex :: "handle option"
  s_uniform :: "uniform option"
  s_blend :: BlendMode
  s_width :: int
  s_height :: int
  s_fixed :: bool

definition submit :: "Submission \<Rightarrow> BatchRenderer \<times> GfxCtx \<Rightarrow> BatchRenderer \<times> GfxCtx" where
  "submit a rc =
     push (s_primitive a) (s_vertices a) (s_indices a) (s_shader a) (s_tex a)
       (s_uniform a) (s_blend a) (s_width a) (s_height a) (s_fixed a) rc"

definition submit_all ::
  "Submission list \<Rightarrow> BatchRenderer \<times> GfxCtx \<Rightarrow> BatchRenderer \<times> GfxCtx" where
  "submit_all subs rc = fold submit subs rc"

text \<open>
  The comparison of material tuples as the spec words it: texture and shader by
  identity, uniform by deep value, and primitive, blend and fixed by value.
\<close>

definition same_tuple :: "Submission \<Rightarrow> Submission \<Rightarrow> bool" where
  "same_tuple a b =
     (s_primitive a = s_primitive b
      \<and> s_tex a = s_tex b
      \<and> s_shader a = s_shader b
      \<and> deepEq_uniform (s_uniform a) (s_uniform b)
      \<and> s_blend a = s_blend b
      \<and> s_fixed a = s_fixed b)"

definition within_maxima :: "BatchRenderer \<Rightarrow> Submission \<Rightarrow> bool" where
  "within_maxima r a =
     (length (vqueue r) + length (s_vertices a) \<le> maxVertices r
      \<and> length (iqueue r) + length (s_indices a) \<le> maxIndices r)"

text \<open>The last part of a live \<open>push\<close>: the data is appended and the tuple recorded.\<close>

definition enqueue :: "Submission \<Rightarrow> BatchRenderer \<times> GfxCtx \<Rightarrow> BatchRenderer \<times> GfxCtx" where
  "enqueue a rc =
     (case rc of (r, c) \<Rightarrow>
        (r\<lparr>vqueue := vqueue r @ s_vertices a,
           iqueue := iqueue r
                     @ map (\<lambda>i. jsadd i (jsdiv (length (vqueue r)) (stride r))) (s_indices a),
           curPrimitive := Some (s_primitive a),
           curShader := Some (s_shader a),
           curTex := s_tex a,
           curUniform := s_uniform a,
           curFixed := Some (s_fixed a)\<rparr>, c))"

text \<open>The material a recording \<open>push\<close> builds from its arguments.\<close>

definition material_of :: "Submission \<Rightarrow> Material" where
  "material_of a =
     \<lparr>m_tex = s_tex a, m_shader = s_shader a, m_uniform = s_uniform a,
      m_blend = s_blend a\<rparr>"

text \<open>The blend table of section 6 of the spec.\<close>

fun spec_blend_table ::
  "BlendMode \<Rightarrow> blend_factor \<times> blend_factor \<times> blend_factor \<times> blend_factor" where
  "spec_blend_table Normal = (ONE, ONE_MINUS_SRC_ALPHA, ONE, ONE_MINUS_SRC_ALPHA)"
| "spec_blend_table Add = (ONE, ONE, ONE, ONE_MINUS_SRC_ALPHA)"
| "spec_blend_table Multiply = (DST_COLOR, ZERO, ONE, ONE_MINUS_SRC_ALPHA)"
| "spec_blend_table Screen = (ONE_MINUS_DST_COLOR, ONE, ONE, ONE_MINUS_SRC_ALPHA)"
| "spec_blend_table Overlay = (DST_COLOR, ONE_MINUS_SRC_ALPHA, ONE, ONE_MINUS_SRC_ALPHA)"

text \<open>The condition under which a live \<open>push\<close> flushes first (lines 283 to 294).\<close>

definition must_flush :: "BatchRenderer \<Rightarrow> Submission \<Rightarrow> bool" where
  "must_flush r a =
     (Some (s_primitive a) \<noteq> curPrimitive r
      \<or> s_tex a \<noteq> curTex r
      \<or> Some (s_shader a) \<noteq> curShader r
      \<or> (\<not> same_object (curUniform r) (s_uniform a)
          \<and> \<not> deepEq_uniform (curUniform r) (s_uniform a))
      \<or> s_blend a \<noteq> curBlend r
      \<or> Some (s_fixed a) \<noteq> curFixed r
      \<or> length (vqueue r) + length (s_vertices a) > maxVertices r
      \<or> length (iqueue r) + length (s_indices a) > maxIndices r)"

text \<open>
  A live renderer in the state its constructor and admissible pushes leave it in: the
  queues are within the maxima and empty together, a non-empty queue has a non-zero
  primitive and a shader, and the two GPU buffers have the size the constructor gave.
\<close>

definition renderer_ok :: "BatchRenderer \<times> GfxCtx \<Rightarrow> bool" where
  "renderer_ok rc =
     (case rc of (r, c) \<Rightarrow>
        picture r = None
        \<and> length (vqueue r) \<le> maxVertices r
        \<and> length (iqueue r) \<le> maxIndices r
        \<and> (vqueue r = [] \<longleftrightarrow> iqueue r = [])
        \<and> (vqueue r \<noteq> [] \<longrightarrow>
             (case curPrimitive r of Some p \<Rightarrow> p \<noteq> 0 | None \<Rightarrow> False)
             \<and> curShader r \<noteq> None)
        \<and> maxVertices r * 4 \<le> BUFFER_SIZE (gl c) (glVBuf r)
        \<and> maxIndices r * 2 \<le> BUFFER_SIZE (gl c) (glIBuf r))"

text \<open>
  A submission that fits the buffers by itself, names a primitive other than 0, and has
  vertices exactly when it has indices.
\<close>

definition admissible :: "BatchRenderer \<Rightarrow> Submission \<Rightarrow> bool" where
  "admissible r a =
     (length (s_vertices a) \<le> maxVertices r
      \<and> length (s_indices a) \<le> maxIndices r
      \<and> s_primitive a \<noteq> 0
      \<and> (s_vertices a = [] \<longleftrightarrow> s_indices a = []))"

subsection \<open>Runs of updates\<close>

text \<open>A run of \<open>update\<close> calls on one Texture, each with its image and offsets.\<close>

definition Texture_updates ::
  "(ImageSource \<times> int \<times> int) list \<Rightarrow> Texture \<times> GfxCtx \<Rightarrow> Texture \<times> GfxCtx" where
  "Texture_updates ups tc = fold (\<lambda>(img, x, y). Texture_update img x y) ups tc"

subsection \<open>Concrete inputs\<close>

definition gl0 :: gl_state where
  "gl0 =
     \<lparr>drawingBufferWidth = 640, drawingBufferHeight = 480, MAX_VERTEX_ATTRIBS = 4,
      fresh = 1, fails = [],
      TEXTURE_BINDING_2D = None, ARRAY_BUFFER_BINDING = None,
      ELEMENT_ARRAY_BUFFER_BINDING = None, FRAMEBUFFER_BINDING = None,
      RENDERBUFFER_BINDING = None, CURRENT_PROGRAM = None,
      VIEWPORT = \<lparr>vx = 0, vy = 0, vw = 640, vh = 480\<rparr>,
      blend_func = (ONE, ZERO, ONE, ZERO),
      BUFFER_SIZE = (\<lambda>b. 0), tex_storage = Map.empty, calls = []\<rparr>"

definition ctx0 :: GfxCtx where
  "ctx0 = initGfx gl0 \<lparr>texFilter = None\<rparr>"

text \<open>A renderer for two floats per vertex, twelve vertex floats and nine indices.\<close>

definition rc0 :: "BatchRenderer \<times> GfxCtx" where
  "rc0 = projr (BatchRenderer_new [(''a_pos'', 2)] 12 9 ctx0)"

text \<open>The context of \<open>ctx0\<close> when the second object creation to come returns \<open>null\<close>.\<close>

definition ctx_second_fails :: GfxCtx where
  "ctx_second_fails = ctx0\<lparr>gl := (gl ctx0)\<lparr>fails := [False, True]\<rparr>\<rparr>"

definition img2x2 :: ImageSource where
  "img2x2 = \<lparr>img_width = 2, img_height = 2, img_data = Raw (replicate 16 255)\<rparr>"

definition opt0 :: TextureOpt where
  "opt0 = \<lparr>filter_opt = None, wrap_opt = None\<rparr>"

text \<open>A Texture and a FrameBuffer made with no size, on \<open>ctx0\<close>.\<close>

definition tex00 :: "Texture \<times> GfxCtx" where
  "tex00 = projr (Texture_new 0 0 opt0 ctx0)"

definition fb00 :: "FrameBuffer \<times> GfxCtx" where
  "fb00 = projr (FrameBuffer_new 0 0 opt0 ctx0)"

text \<open>Two vertices and three indices drawn as \<open>gl.TRIANGLES\<close> (4); one vertex, one index.\<close>

definition tri :: Submission where
  "tri =
     \<lparr>s_primitive = 4, s_vertices = [Finite 0, Finite 0, Finite 1, Finite 0],
      s_indices = [Finite 0, Finite 1, Finite 0], s_shader = 1, s_tex = None,
      s_uniform = None, s_blend = Normal, s_width = 640, s_height = 480,
      s_fixed = False\<rparr>"

definition dot :: Submission where
  "dot = tri\<lparr>s_vertices := [Finite 5, Finite 5], s_indices := [Finite 0]\<rparr>"

text \<open>Two uniform objects with the same contents.\<close>

definition u1 :: uniform where
  "u1 = \<lparr>uid = 1, ufields = [''u_time'' \<mapsto> [0]]\<rparr>"

definition u2 :: uniform where
  "u2 = \<lparr>uid = 2, ufields = [''u_time'' \<mapsto> [0]]\<rparr>"

text \<open>The renderer \<open>rc0\<close> with an empty Picture set.\<close>

definition rec0 :: "BatchRenderer \<times> GfxCtx" where
  "rec0 = ((fst rc0)\<lparr>picture := Some \<lparr>vertices = [], indices = [], commands = []\<rparr>\<rparr>,
           snd rc0)"

text \<open>The two components of \<open>rc0\<close>: the renderer, written out, and the context.\<close>

definition r0 :: BatchRenderer where
  "r0 =
     \<lparr>glVBuf = 1, glIBuf = 2, vqueue = [], iqueue = [], stride = 2,
      maxVertices = 12, maxIndices = 9, vertexFormat = [(''a_pos'', 2)], numDraws = 0,
      curPrimitive = None, curTex = None, curShader = None, curUniform = None,
      curBlend = Normal, curFixed = None, picture = None\<rparr>"

definition c0 :: GfxCtx where
  "c0 = snd rc0"

text \<open>The vertices of \<open>tri\<close> without any index.\<close>

definition bare :: Submission where
  "bare = tri\<lparr>s_indices := []\<rparr>"

text \<open>An image of no size.\<close>

definition img0 :: ImageSource where
  "img0 = \<lparr>img_width = 0, img_height = 0, img_data = Raw []\<rparr>"

text \<open>More vertex floats than \<open>rc0\<close> has room for.\<close>

definition big :: Submission where
  "big = tri\<lparr>s_vertices := replicate 14 (Finite 0)\<rparr>"

text \<open>Six vertex floats: they fit \<open>rc0\<close>, but not on top of two \<open>tri\<close>.\<close>

definition wide :: Submission where
  "wide = tri\<lparr>s_vertices := replicate 6 (Finite 0)\<rparr>"

section \<open>The stacks: frame and restore\<close>

lemmas stack_defs =
  pushTexture2D_def popTexture2D_def pushArrayBuffer_def popArrayBuffer_def
  pushElementArrayBuffer_def popElementArrayBuffer_def pushFramebuffer_def
  popFramebuffer_def pushRenderbuffer_def popRenderbuffer_def pushViewport_def
  popViewport_def pushProgram_def popProgram_def genStack_push_def genStack_pop_def

lemmas callback_defs =
  setTexture2D_def setArrayBuffer_def setElementArrayBuffer_def setFramebuffer_def
  setRenderbuffer_def setViewport_def setProgram_def

lemmas gl_defs =
  emit_def bindTexture_def bindBuffer_def bindFramebuffer_def bindRenderbuffer_def
  useProgram_def viewport_def blendFuncSeparate_def bufferData_def bufferSubData_def
  texImage2D_def texSubImage2D_def gl_create_def

lemma gl_withGl [simp]: "gl (withGl f c) = f (gl c)"
  by (simp add: withGl_def)

lemma gl_of_stack_calls:
  "gl (pushTexture2D x c) = setTexture2D x (gl c)"
  "gl (popTexture2D c) = setTexture2D (genStack_cur (butlast (texture2DStack c))) (gl c)"
  "gl (pushArrayBuffer x c) = setArrayBuffer x (gl c)"
  "gl (popArrayBuffer c) = setArrayBuffer (genStack_cur (butlast (arrayBufferStack c))) (gl c)"
  "gl (pushElementArrayBuffer x c) = setElementArrayBuffer x (gl c)"
  "gl (popElementArrayBuffer c) =
     setElementArrayBuffer (genStack_cur (butlast (elementArrayBufferStack c))) (gl c)"
  "gl (pushFramebuffer x c) = setFramebuffer x (gl c)"
  "gl (popFramebuffer c) = setFramebuffer (genStack_cur (butlast (framebufferStack c))) (gl c)"
  "gl (pushRenderbuffer x c) = setRenderbuffer x (gl c)"
  "gl (popRenderbuffer c) = setRenderbuffer (genStack_cur (butlast (renderbufferStack c))) (gl c)"
  "gl (pushViewport y c) = setViewport y (gl c)"
  "gl (popViewport c) = setViewport (genStack_cur (butlast (viewportStack c))) (gl c)"
  "gl (pushProgram x c) = setProgram x (gl c)"
  "gl (popProgram c) = setProgram (genStack_cur (butlast (programStack c))) (gl c)"
  by (simp_all add: stack_defs)

lemma stack_items_run_call:
  "stack_items (call_kind q) (run_call q c) =
     (if is_push q then stack_items (call_kind q) c @
         [case q of PushTexture2D x \<Rightarrow> map_option Obj x | PushArrayBuffer x \<Rightarrow> map_option Obj x
          | PushElementArrayBuffer x \<Rightarrow> map_option Obj x | PushFramebuffer x \<Rightarrow> map_option Obj x
          | PushRenderbuffer x \<Rightarrow> map_option Obj x | PushViewport x \<Rightarrow> map_option Area x
          | PushProgram x \<Rightarrow> map_option Obj x | _ \<Rightarrow> None]
      else butlast (stack_items (call_kind q) c))"
  by (cases q) (simp_all add: stack_defs map_butlast)

lemma other_kind_stack:
  "call_kind q \<noteq> k \<Longrightarrow> stack_items k (run_call q c) = stack_items k c"
  by (cases q; cases k) (simp_all add: stack_defs)

lemma other_kind_bound:
  "call_kind q \<noteq> k \<Longrightarrow> bound_resource k (gl (run_call q c)) = bound_resource k (gl c)"
  by (cases q; cases k)
     (simp_all add: gl_of_stack_calls callback_defs gl_defs
        split: option.splits list.splits prod.splits)

lemma other_kinds_frame:
  "\<forall>q\<in>set qs. call_kind q \<noteq> k \<Longrightarrow>
     stack_items k (run_calls qs c) = stack_items k c
     \<and> bound_resource k (gl (run_calls qs c)) = bound_resource k (gl c)"
proof (induction qs arbitrary: c)
  case Nil
  then show ?case by (simp add: run_calls_def)
next
  case (Cons q qs)
  have "run_calls (q # qs) c = run_calls qs (run_call q c)"
    by (simp add: run_calls_def)
  with Cons show ?case
    by (simp add: other_kind_stack other_kind_bound)
qed

lemma map_snoc_top:
  assumes "map f st = s @ [x]" and "s \<noteq> []"
  shows "butlast st \<noteq> [] \<and> f (last (butlast st)) = last s"
proof -
  have eq: "map f (butlast st) = s"
    using assms(1) by (metis butlast_snoc map_butlast)
  with assms(2) have ne: "butlast st \<noteq> []" by auto
  from eq ne show ?thesis by (metis last_map)
qed

lemma pop_binds_top:
  assumes "stack_items k c = s @ [x]" and "s \<noteq> []" and "last s = Some b"
  shows "bound_resource k (gl (run_call (pop_of k) c)) = Some b"
proof (cases k)
  case KTexture2D
  with assms map_snoc_top[of "map_option Obj" "texture2DStack c" s x] show ?thesis
    by (auto simp: gl_of_stack_calls genStack_cur_def callback_defs gl_defs)
next
  case KArrayBuffer
  with assms map_snoc_top[of "map_option Obj" "arrayBufferStack c" s x] show ?thesis
    by (auto simp: gl_of_stack_calls genStack_cur_def callback_defs gl_defs)
next
  case KElementArrayBuffer
  with assms map_snoc_top[of "map_option Obj" "elementArrayBufferStack c" s x] show ?thesis
    by (auto simp: gl_of_stack_calls genStack_cur_def callback_defs gl_defs)
next
  case KFramebuffer
  with assms map_snoc_top[of "map_option Obj" "framebufferStack c" s x] show ?thesis
    by (auto simp: gl_of_stack_calls genStack_cur_def callback_defs gl_defs)
next
  case KRenderbuffer
  with assms map_snoc_top[of "map_option Obj" "renderbufferStack c" s x] show ?thesis
    by (auto simp: gl_of_stack_calls genStack_cur_def callback_defs gl_defs)
next
  case KViewport
  with assms map_snoc_top[of "map_option Area" "viewportStack c" s x] show ?thesis
    by (auto simp: gl_of_stack_calls genStack_cur_def callback_defs gl_defs)
next
  case KProgram
  with assms map_snoc_top[of "map_option Obj" "programStack c" s x] show ?thesis
    by (auto simp: gl_of_stack_calls genStack_cur_def callback_defs gl_defs)
qed

text \<open>
  Claim C5, as amended. Take any stack whose top, just before the push, is an object and
  is the resource bound for that kind. Then \<open>push(item)\<close>, any pushes and pops on the
  stacks of other kinds, and \<open>pop()\<close> leave the bound resource of the kind as it was
  before the push. (From an empty stack the claim fails: see the counterexample.)
\<close>

theorem stack_restore:
  assumes "is_push p"
    and "\<forall>q\<in>set qs. call_kind q \<noteq> call_kind p"
    and "top_is_bound (call_kind p) c"
  shows "bound_resource (call_kind p)
           (gl (run_calls (p # qs @ [pop_of (call_kind p)]) c))
         = bound_resource (call_kind p) (gl c)"
proof -
  let ?k = "call_kind p"
  let ?c1 = "run_call p c"
  let ?c2 = "run_calls qs ?c1"
  obtain x where pushed: "stack_items ?k ?c1 = stack_items ?k c @ [x]"
    using assms(1) by (simp add: stack_items_run_call)
  have "stack_items ?k ?c2 = stack_items ?k ?c1"
    using other_kinds_frame[OF assms(2)] by simp
  with pushed have st: "stack_items ?k ?c2 = stack_items ?k c @ [x]" by simp
  from assms(3) have ne: "stack_items ?k c \<noteq> []"
    and nn: "last (stack_items ?k c) \<noteq> None"
    and eq: "last (stack_items ?k c) = bound_resource ?k (gl c)"
    unfolding top_is_bound_def by blast+
  from nn obtain b where top: "last (stack_items ?k c) = Some b"
    by blast
  with eq have bound: "bound_resource ?k (gl c) = Some b"
    by simp
  have "run_calls (p # qs @ [pop_of ?k]) c = run_call (pop_of ?k) ?c2"
    by (simp add: run_calls_def)
  with pop_binds_top[OF st ne top] bound show ?thesis by simp
qed

lemma ctx0_eval:
  "ctx0 =
     \<lparr>gl = \<lparr>drawingBufferWidth = 640, drawingBufferHeight = 480, MAX_VERTEX_ATTRIBS = 4,
             fresh = 1, fails = [],
             TEXTURE_BINDING_2D = None, ARRAY_BUFFER_BINDING = None,
             ELEMENT_ARRAY_BUFFER_BINDING = None, FRAMEBUFFER_BINDING = None,
             RENDERBUFFER_BINDING = None, CURRENT_PROGRAM = None,
             VIEWPORT = \<lparr>vx = 0, vy = 0, vw = 640, vh = 480\<rparr>,
             blend_func = (ONE, ZERO, ONE, ZERO),
             BUFFER_SIZE = (\<lambda>b. 0), tex_storage = Map.empty,
             calls = [SetViewport \<lparr>vx = 0, vy = 0, vw = 640, vh = 480\<rparr>]\<rparr>,
      opts = \<lparr>texFilter = None\<rparr>, gc = [], curVertexFormat = None,
      texture2DStack = [], arrayBufferStack = [], elementArrayBufferStack = [],
      framebufferStack = [], renderbufferStack = [],
      viewportStack = [Some \<lparr>vx = 0, vy = 0, vw = 640, vh = 480\<rparr>],
      programStack = []\<rparr>"
  by (simp add: ctx0_def initGfx_def pushViewport_def genStack_push_def setViewport_def
      viewport_def emit_def gl0_def)

theorem stack_restore_witness:
  "bound_resource KArrayBuffer
     (gl (run_calls [PushArrayBuffer (Some 8), PushTexture2D (Some 3), PopTexture2D,
                     PopArrayBuffer] (pushArrayBuffer (Some 7) ctx0)))
   = Some (Obj 7)"
proof -
  have "top_is_bound KArrayBuffer (pushArrayBuffer (Some 7) ctx0)"
    by (simp add: top_is_bound_def ctx0_eval stack_defs callback_defs gl_defs)
  moreover have "bound_resource KArrayBuffer (gl (pushArrayBuffer (Some 7) ctx0)) = Some (Obj 7)"
    by (simp add: ctx0_eval stack_defs callback_defs gl_defs)
  ultimately show ?thesis
    using stack_restore[of "PushArrayBuffer (Some 8)" "[PushTexture2D (Some 3), PopTexture2D]"
        "pushArrayBuffer (Some 7) ctx0"]
    by simp
qed

text \<open>
  On the context \<open>initGfx\<close> returns the array-buffer stack is empty and nothing is bound.
  After \<open>pushArrayBuffer(b)\<close> and \<open>popArrayBuffer()\<close> the buffer \<open>b\<close> is still bound: the
  callback does nothing for \<open>null\<close>.
\<close>

theorem stack_restore_counterexample:
  "bound_resource KArrayBuffer
     (gl (run_calls [PushArrayBuffer (Some 7), PopArrayBuffer] ctx0))
   \<noteq> bound_resource KArrayBuffer (gl ctx0)"
  by (simp add: run_calls_def ctx0_eval stack_defs callback_defs gl_defs genStack_cur_def gl0_def)

section \<open>Blend modes\<close>

lemma rc0_new: "BatchRenderer_new [(''a_pos'', 2)] 12 9 ctx0 = Inr rc0"
  unfolding rc0_def
  by (simp add: BatchRenderer_new_def ctx0_eval gl0_def stack_defs callback_defs gl_defs
      withGl_def bound_buffer_def genStack_cur_def Let_def)

lemma rc0_split: "rc0 = (r0, c0)"
proof -
  have "fst rc0 = r0"
    unfolding rc0_def r0_def
    by (simp add: BatchRenderer_new_def ctx0_eval gl0_def stack_defs callback_defs gl_defs
        withGl_def bound_buffer_def genStack_cur_def Let_def)
  then show ?thesis
    by (simp add: c0_def prod_eq_iff)
qed

text \<open>
  Claim C6. \<open>setBlend(mode)\<close> changes nothing when \<open>mode\<close> is the current blend mode.
  Otherwise it records the mode and makes exactly one \<open>blendFuncSeparate\<close> call, with the
  four factors the table of section 6 of the spec gives for the mode.
\<close>

theorem setBlend_table:
  "(mode = curBlend r \<longrightarrow> setBlend mode (r, c) = (r, c))
   \<and> (mode \<noteq> curBlend r \<longrightarrow>
        setBlend mode (r, c)
          = (r\<lparr>curBlend := mode\<rparr>,
             withGl (case spec_blend_table mode of
                       (sRGB, dRGB, sA, dA) \<Rightarrow> blendFuncSeparate sRGB dRGB sA dA) c)
        \<and> blend_func (gl (snd (setBlend mode (r, c)))) = spec_blend_table mode
        \<and> calls (gl (snd (setBlend mode (r, c))))
            = calls (gl c)
              @ [case spec_blend_table mode of
                   (sRGB, dRGB, sA, dA) \<Rightarrow> BlendFuncSeparate sRGB dRGB sA dA])"
  by (cases mode) (simp_all add: setBlend_def blendFuncSeparate_def emit_def)

theorem setBlend_table_witness:
  "Normal = curBlend (fst rc0) \<and> setBlend Normal (fst rc0, snd rc0) = (fst rc0, snd rc0)
   \<and> Screen \<noteq> curBlend (fst rc0)
   \<and> blend_func (gl (snd (setBlend Screen (fst rc0, snd rc0))))
       = (ONE_MINUS_DST_COLOR, ONE, ONE, ONE_MINUS_SRC_ALPHA)"
  using setBlend_table[of Normal "fst rc0" "snd rc0"]
        setBlend_table[of Screen "fst rc0" "snd rc0"]
  by (simp add: rc0_split r0_def blendFuncSeparate_def emit_def)

section \<open>What \<open>pop\<close> does\<close>

lemma pop_removes_top:
  "stack_items k (run_call (pop_of k) c) = butlast (stack_items k c)"
  by (cases k) (simp_all add: stack_defs map_butlast)

lemma genStack_cur_short: "length s \<le> Suc 0 \<Longrightarrow> genStack_cur (butlast s) = None"
  by (cases s) (simp_all add: genStack_cur_def)

text \<open>
  Claim C7, as amended. For every stack, \<open>pop()\<close> removes the top and calls the bind
  callback of the kind with the new top. When the stack becomes empty the callback gets
  \<open>null\<close>: the array-buffer, element-array-buffer and viewport callbacks then leave the
  context as it is (no bind, no \<open>gl.viewport\<close> call), and the texture callback binds what
  a \<open>gl.createTexture()\<close> call made at that moment returns: a new handle whenever the
  creation succeeds, not a handle reserved beforehand.
\<close>

theorem pop_defaults:
  "stack_items k (run_call (pop_of k) c) = butlast (stack_items k c)
   \<and> gl (popTexture2D c) = setTexture2D (genStack_cur (butlast (texture2DStack c))) (gl c)
   \<and> gl (popArrayBuffer c)
       = setArrayBuffer (genStack_cur (butlast (arrayBufferStack c))) (gl c)
   \<and> gl (popElementArrayBuffer c)
       = setElementArrayBuffer (genStack_cur (butlast (elementArrayBufferStack c))) (gl c)
   \<and> gl (popFramebuffer c)
       = setFramebuffer (genStack_cur (butlast (framebufferStack c))) (gl c)
   \<and> gl (popRenderbuffer c)
       = setRenderbuffer (genStack_cur (butlast (renderbufferStack c))) (gl c)
   \<and> gl (popViewport c) = setViewport (genStack_cur (butlast (viewportStack c))) (gl c)
   \<and> gl (popProgram c) = setProgram (genStack_cur (butlast (programStack c))) (gl c)
   \<and> (length (arrayBufferStack c) \<le> 1 \<longrightarrow> gl (popArrayBuffer c) = gl c)
   \<and> (length (elementArrayBufferStack c) \<le> 1 \<longrightarrow> gl (popElementArrayBuffer c) = gl c)
   \<and> (length (viewportStack c) \<le> 1 \<longrightarrow> gl (popViewport c) = gl c)
   \<and> (length (texture2DStack c) \<le> 1 \<longrightarrow>
        gl (popTexture2D c)
          = bindTexture (fst (gl_create (gl c))) (snd (gl_create (gl c)))
        \<and> (fails (gl c) = [] \<longrightarrow>
             TEXTURE_BINDING_2D (gl (popTexture2D c)) = Some (fresh (gl c))
             \<and> fresh (gl (popTexture2D c)) = Suc (fresh (gl c))))"
  by (simp add: pop_removes_top gl_of_stack_calls genStack_cur_short callback_defs
      gl_defs split: prod.splits)

theorem pop_defaults_witness:
  "length (arrayBufferStack (pushArrayBuffer (Some 7) ctx0)) \<le> 1
   \<and> gl (popArrayBuffer (pushArrayBuffer (Some 7) ctx0)) = gl (pushArrayBuffer (Some 7) ctx0)
   \<and> length (texture2DStack (pushTexture2D (Some 9) ctx0)) \<le> 1
   \<and> fails (gl (pushTexture2D (Some 9) ctx0)) = []
   \<and> TEXTURE_BINDING_2D (gl (popTexture2D (pushTexture2D (Some 9) ctx0))) = Some 1
   \<and> length (viewportStack ctx0) \<le> 1
   \<and> gl (popViewport ctx0) = gl ctx0"
  using pop_defaults[of KArrayBuffer "pushArrayBuffer (Some 7) ctx0"]
        pop_defaults[of KTexture2D "pushTexture2D (Some 9) ctx0"]
        pop_defaults[of KViewport ctx0]
  by (simp add: ctx0_eval gl0_def stack_defs callback_defs gl_defs)

text \<open>
  Were one reserved handle bound whenever the texture stack runs empty, two such pops
  would bind the same handle. They bind two different ones.
\<close>

theorem pop_defaults_counterexample:
  "TEXTURE_BINDING_2D
     (gl (popTexture2D (pushTexture2D (Some 9) (popTexture2D (pushTexture2D (Some 9) ctx0)))))
   \<noteq> TEXTURE_BINDING_2D (gl (popTexture2D (pushTexture2D (Some 9) ctx0)))"
  by (simp add: ctx0_eval gl0_def stack_defs callback_defs gl_defs genStack_cur_def)

section \<open>Constructors and failed allocations\<close>

lemma Texture_new_raises:
  "fst (gl_create (gl c)) = None \<Longrightarrow> isl (Texture_new w h opt c)"
  by (auto simp: Texture_new_def split: prod.splits)

lemma fails_after_buffer_setup:
  "fails (gl (popArrayBuffer (withGl (bufferData ARRAY_BUFFER n)
                 (pushArrayBuffer (Some vb) c)))) = fails (gl c)"
  by (simp add: gl_of_stack_calls callback_defs gl_defs bound_buffer_def
      split: option.splits)

lemma BatchRenderer_new_raises:
  "fails (gl c) = True # fs \<or> fails (gl c) = False # True # fs \<Longrightarrow>
     isl (BatchRenderer_new format maxV maxI c)"
  by (auto simp: BatchRenderer_new_def Let_def fails_after_buffer_setup gl_create_def
      split: prod.splits option.splits list.splits)

lemma FrameBuffer_new_raises:
  assumes "Texture_new w h opt (onDestroy ReleaseFrameBuffer c) = Inr (t, c1)"
    and "fails (gl c1) = True # fs \<or> fails (gl c1) = False # True # fs"
  shows "isl (FrameBuffer_new w h opt c)"
  using assms
  by (auto simp: FrameBuffer_new_def gl_create_def split: prod.splits option.splits)

text \<open>
  Claim C8 fails on \<open>Mesh\<close>. When the first \<open>gl.createBuffer()\<close> of the constructor
  succeeds and the second returns \<open>null\<close>, the constructor raises nothing: it returns a
  Mesh whose \<open>glIBuf\<close> is \<open>null\<close>.
\<close>

theorem Mesh_new_unchecked_index_buffer:
  "fails (gl c) = False # True # fs \<Longrightarrow>
     \<exists>m c'. Mesh_new format verts inds c = Inr (m, c') \<and> mesh_glIBuf m = None"
  by (simp add: Mesh_new_def Let_def fails_after_buffer_setup gl_create_def
      split: prod.splits option.splits list.splits)

theorem Mesh_new_unchecked_index_buffer_witness:
  "fails (gl ctx_second_fails) = False # True # []
   \<and> (\<exists>m c'. Mesh_new [(''a_pos'', 2)] [Finite 0, Finite 0] [Finite 0] ctx_second_fails
                = Inr (m, c') \<and> mesh_glIBuf m = None)"
  using Mesh_new_unchecked_index_buffer[of ctx_second_fails "[]" "[(''a_pos'', 2)]"
      "[Finite 0, Finite 0]" "[Finite 0]"]
  by (simp add: ctx_second_fails_def)

section \<open>Deferred allocation of texture storage\<close>

lemma gl_onDestroy [simp]: "gl (onDestroy a c) = gl c"
  by (simp add: onDestroy_def)

lemma gl_create_frame:
  "calls (snd (gl_create g)) = calls g"
  "tex_storage (snd (gl_create g)) = tex_storage g"
  by (simp_all add: gl_create_def split: list.splits)

lemma setTexture2D_frame:
  "filter is_texImage2D (calls (setTexture2D x g)) = filter is_texImage2D (calls g)"
  "tex_storage (setTexture2D x g) = tex_storage g"
  "TEXTURE_BINDING_2D (setTexture2D (Some h) g) = Some h"
  by (simp_all add: setTexture2D_def bindTexture_def emit_def gl_create_frame
      split: option.splits prod.splits)
     (metis gl_create_frame snd_conv)+

lemma Texture_new_deferred:
  assumes "w = 0 \<or> h = 0" and "Texture_new w h opt c = Inr (t, c1)"
  shows "\<not> allocated t \<and> width t = w \<and> height t = h
         \<and> filter is_texImage2D (calls (gl c1)) = filter is_texImage2D (calls (gl c))"
proof -
  obtain glText g1 where cr: "gl_create (gl c) = (glText, g1)"
    by (cases "gl_create (gl c)")
  with assms(2) obtain tx where tx: "glText = Some tx"
    by (cases glText) (simp_all add: Texture_new_def)
  have g1: "calls g1 = calls (gl c)"
    using gl_create_frame(1)[of "gl c"] cr by simp
  from assms cr tx g1 show ?thesis
    by (auto simp: Texture_new_def Let_def Texture_bind_def Texture_unbind_def
        gl_of_stack_calls setTexture2D_frame emit_def)
qed

lemma Texture_update_unallocated:
  assumes "\<not> allocated t"
  shows "fst (Texture_update img x y (t, c)) = t\<lparr>allocated := True\<rparr>"
    and "filter is_texImage2D (calls (gl (snd (Texture_update img x y (t, c)))))
         = filter is_texImage2D (calls (gl c)) @ [TexImage2D (img_width img) (img_height img)]"
    and "0 \<le> img_width img \<and> 0 \<le> img_height img \<Longrightarrow>
         tex_storage (gl (snd (Texture_update img x y (t, c)))) (glTex t)
         = Some (img_width img, img_height img)"
  using assms
  by (simp_all add: Texture_update_def Let_def Texture_bind_def Texture_unbind_def
      gl_of_stack_calls setTexture2D_frame texImage2D_def texSubImage2D_def emit_def)

lemma Texture_update_allocated:
  assumes "allocated t"
  shows "fst (Texture_update img x y (t, c)) = t"
    and "filter is_texImage2D (calls (gl (snd (Texture_update img x y (t, c)))))
         = filter is_texImage2D (calls (gl c))"
  using assms
  by (simp_all add: Texture_update_def Let_def Texture_bind_def Texture_unbind_def
      gl_of_stack_calls setTexture2D_frame texSubImage2D_def emit_def)

lemma Texture_updates_allocated:
  "allocated (fst tc) \<Longrightarrow>
     fst (Texture_updates ups tc) = fst tc
     \<and> allocations (snd (Texture_updates ups tc)) = allocations (snd tc)"
proof (induction ups arbitrary: tc)
  case Nil
  then show ?case by (simp add: Texture_updates_def)
next
  case (Cons u ups)
  obtain img x y where u: "u = (img, x, y)" by (cases u) auto
  obtain t c where tc: "tc = (t, c)" by (cases tc) auto
  let ?tc1 = "Texture_update img x y (t, c)"
  have step: "Texture_updates (u # ups) tc = Texture_updates ups ?tc1"
    by (simp add: Texture_updates_def u tc)
  from Cons.prems tc have a: "allocated t" by simp
  have keep: "fst ?tc1 = t" "allocations (snd ?tc1) = allocations c"
    using Texture_update_allocated[OF a] by (simp_all add: allocations_def)
  with a Cons.IH[of ?tc1] step tc show ?case by simp
qed

text \<open>
  The path the comments describe. A Texture constructed with \<open>w = 0\<close> or \<open>h = 0\<close> has
  its flag \<open>False\<close> and the constructor made no \<open>texImage2D\<close> call. The \<open>update\<close> that
  comes first after that makes exactly one \<open>texImage2D\<close> call, with the size of its
  image, and sets the flag; whatever \<open>update\<close> calls follow it, no further
  \<open>texImage2D\<close> call is made.
\<close>

lemma update_after_construction:
  assumes "w = 0 \<or> h = 0" and "Texture_new w h opt c = Inr (t, c1)"
  shows "\<not> allocated t \<and> allocations c1 = allocations c
         \<and> allocated (fst (Texture_update img x y (t, c2)))
         \<and> allocations (snd (Texture_update img x y (t, c2))) = Suc (allocations c2)
         \<and> allocated (fst (Texture_updates ups (Texture_update img x y (t, c2))))
         \<and> allocations (snd (Texture_updates ups (Texture_update img x y (t, c2))))
             = Suc (allocations c2)"
proof -
  from Texture_new_deferred[OF assms] have na: "\<not> allocated t"
    and same: "allocations c1 = allocations c"
    by (simp_all add: allocations_def)
  let ?tc = "Texture_update img x y (t, c2)"
  have a1: "allocated (fst ?tc)"
    using Texture_update_unallocated(1)[OF na] by simp
  have n1: "allocations (snd ?tc) = Suc (allocations c2)"
    using Texture_update_unallocated(2)[OF na] by (simp add: allocations_def)
  from Texture_updates_allocated[OF a1, of ups] a1 n1 na same show ?thesis
    by simp
qed

lemma tex00_new: "Texture_new 0 0 opt0 ctx0 = Inr (fst tex00, snd tex00)"
  unfolding tex00_def
  by (simp add: Texture_new_def ctx0_eval gl_create_def Let_def)

lemma Texture_update_allocated_storage:
  "allocated t \<Longrightarrow>
     tex_storage (gl (snd (Texture_update img x y (t, c)))) = tex_storage (gl c)"
  by (simp add: Texture_update_def Let_def Texture_bind_def Texture_unbind_def
      gl_of_stack_calls setTexture2D_frame texSubImage2D_def emit_def)

text \<open>
  Claim C9 fails when an \<open>update\<close> with an image of no size comes first. \<open>update\<close>
  never reads the size: that call makes the \<open>texImage2D\<close> call, for a storage of no
  size, and sets the flag. The first \<open>update\<close> with an image that has a size then finds
  the flag set and allocates nothing: it makes no \<open>texImage2D\<close> call, and the storage of
  the texture stays the one of no size.
\<close>

theorem update_without_size_takes_the_allocation:
  assumes "w = 0 \<or> h = 0" and "Texture_new w h opt c = Inr (t, c1)"
    and "img_width z = 0 \<or> img_height z = 0"
    and "0 \<le> img_width z" and "0 \<le> img_height z"
    and "img_width img \<noteq> 0" and "img_height img \<noteq> 0"
    and "Texture_update z x y (t, c2) = (t1, c3)"
    and "Texture_update img x' y' (t1, c3) = (t2, c4)"
  shows "allocated t1
         \<and> tex_storage (gl c3) (glTex t) = Some (img_width z, img_height z)
         \<and> filter is_texImage2D (calls (gl c3))
             = filter is_texImage2D (calls (gl c2))
               @ [TexImage2D (img_width z) (img_height z)]
         \<and> filter is_texImage2D (calls (gl c4)) = filter is_texImage2D (calls (gl c3))
         \<and> tex_storage (gl c4) (glTex t) = Some (img_width z, img_height z)
         \<and> tex_storage (gl c4) (glTex t) \<noteq> Some (img_width img, img_height img)"
proof -
  from Texture_new_deferred[OF assms(1,2)] have na: "\<not> allocated t"
    by simp
  from Texture_update_unallocated[OF na, of z x y c2] assms(4,5,8)
  have t1: "t1 = t\<lparr>allocated := True\<rparr>"
    and log3: "filter is_texImage2D (calls (gl c3))
             = filter is_texImage2D (calls (gl c2))
               @ [TexImage2D (img_width z) (img_height z)]"
    and st3: "tex_storage (gl c3) (glTex t) = Some (img_width z, img_height z)"
    by simp_all
  from t1 have a1: "allocated t1" by simp
  from Texture_update_allocated(2)[OF a1, of img x' y' c3] assms(9)
  have log4: "filter is_texImage2D (calls (gl c4)) = filter is_texImage2D (calls (gl c3))"
    by simp
  from Texture_update_allocated_storage[OF a1, of img x' y' c3] assms(9) st3
  have st4: "tex_storage (gl c4) (glTex t) = Some (img_width z, img_height z)"
    by simp
  from assms(3,6,7) st4
  have "tex_storage (gl c4) (glTex t) \<noteq> Some (img_width img, img_height img)"
    by auto
  with a1 st3 log3 log4 st4 show ?thesis
    by simp
qed

theorem update_without_size_takes_the_allocation_witness:
  "allocated (fst (Texture_update img0 0 0 (fst tex00, snd tex00)))
   \<and> filter is_texImage2D
        (calls (gl (snd (Texture_update img2x2 0 0
                           (Texture_update img0 0 0 (fst tex00, snd tex00))))))
       = filter is_texImage2D
           (calls (gl (snd (Texture_update img0 0 0 (fst tex00, snd tex00)))))
   \<and> tex_storage
        (gl (snd (Texture_update img2x2 0 0
                    (Texture_update img0 0 0 (fst tex00, snd tex00)))))
        (glTex (fst tex00)) = Some (0, 0)"
proof -
  have zero: "(0::int) = 0 \<or> (0::int) = 0" by simp
  have z: "img_width img0 = 0 \<or> img_height img0 = 0" "0 \<le> img_width img0"
    "0 \<le> img_height img0"
    by (simp_all add: img0_def)
  have nz: "img_width img2x2 \<noteq> 0" "img_height img2x2 \<noteq> 0"
    by (simp_all add: img2x2_def)
  let ?u1 = "Texture_update img0 0 0 (fst tex00, snd tex00)"
  let ?u2 = "Texture_update img2x2 0 0 ?u1"
  have u1: "Texture_update img0 0 0 (fst tex00, snd tex00) = (fst ?u1, snd ?u1)"
    by simp
  have u2: "Texture_update img2x2 0 0 (fst ?u1, snd ?u1) = (fst ?u2, snd ?u2)"
    by simp
  from update_without_size_takes_the_allocation[OF zero tex00_new z nz u1 u2]
  have "allocated (fst ?u1)
        \<and> filter is_texImage2D (calls (gl (snd ?u2)))
            = filter is_texImage2D (calls (gl (snd ?u1)))
        \<and> tex_storage (gl (snd ?u2)) (glTex (fst tex00))
            = Some (img_width img0, img_height img0)"
    by blast
  then show ?thesis
    by (simp add: img0_def)
qed

text \<open>
  Claim C10. For a Texture constructed with \<open>w = 0\<close> or \<open>h = 0\<close>, the \<open>update\<close> that
  allocates the storage calls \<open>texImage2D\<close> with the width and height of the image (and
  so gives the texture storage of that size), while the fields \<open>width\<close> and \<open>height\<close>
  keep the values \<open>w\<close> and \<open>h\<close> of the construction. A FrameBuffer that owns the Texture
  reads these fields, so its \<open>width\<close> and \<open>height\<close> do not change either.
\<close>

theorem update_keeps_size:
  assumes "w = 0 \<or> h = 0" and "Texture_new w h opt c = Inr (t, c1)"
    and "Texture_update img x y (t, c2) = (t', c3)"
  shows "filter is_texImage2D (calls (gl c3))
           = filter is_texImage2D (calls (gl c2))
             @ [TexImage2D (img_width img) (img_height img)]
         \<and> (0 \<le> img_width img \<and> 0 \<le> img_height img \<longrightarrow>
              tex_storage (gl c3) (glTex t') = Some (img_width img, img_height img))
         \<and> width t' = w \<and> height t' = h
         \<and> (tex fb = t \<longrightarrow>
              FrameBuffer_width (fb\<lparr>tex := t'\<rparr>) = FrameBuffer_width fb
              \<and> FrameBuffer_height (fb\<lparr>tex := t'\<rparr>) = FrameBuffer_height fb)"
proof -
  from Texture_new_deferred[OF assms(1,2)] have na: "\<not> allocated t"
    and wh: "width t = w" "height t = h"
    by simp_all
  from Texture_update_unallocated[OF na, of img x y c2] assms(3)
  have t': "t' = t\<lparr>allocated := True\<rparr>"
    and log: "filter is_texImage2D (calls (gl c3))
           = filter is_texImage2D (calls (gl c2))
             @ [TexImage2D (img_width img) (img_height img)]"
    and st: "0 \<le> img_width img \<and> 0 \<le> img_height img \<Longrightarrow>
              tex_storage (gl c3) (glTex t) = Some (img_width img, img_height img)"
    by simp_all
  from t' wh log st show ?thesis
    by (simp add: FrameBuffer_width_def FrameBuffer_height_def)
qed

lemma fb00_tex:
  "Texture_new 0 0 opt0 (onDestroy ReleaseFrameBuffer ctx0)
     = Inr (tex (fst fb00), snd (projr (Texture_new 0 0 opt0 (onDestroy ReleaseFrameBuffer ctx0))))"
  unfolding fb00_def
  by (simp add: FrameBuffer_new_def Texture_new_def ctx0_eval gl_create_def Let_def
      onDestroy_def Texture_bind_def Texture_unbind_def stack_defs callback_defs
      genStack_cur_def bindTexture_def emit_def withGl_def)

theorem update_keeps_size_witness:
  "FrameBuffer_width (fst fb00) = 0 \<and> FrameBuffer_height (fst fb00) = 0
   \<and> FrameBuffer_width
        ((fst fb00)\<lparr>tex := fst (Texture_update img2x2 0 0 (tex (fst fb00), snd fb00))\<rparr>) = 0
   \<and> FrameBuffer_height
        ((fst fb00)\<lparr>tex := fst (Texture_update img2x2 0 0 (tex (fst fb00), snd fb00))\<rparr>) = 0
   \<and> tex_storage (gl (snd (Texture_update img2x2 0 0 (tex (fst fb00), snd fb00))))
        (glTex (fst (Texture_update img2x2 0 0 (tex (fst fb00), snd fb00)))) = Some (2, 2)"
proof -
  have zero: "(0::int) = 0 \<or> (0::int) = 0" by simp
  have upd: "Texture_update img2x2 0 0 (tex (fst fb00), snd fb00)
             = (fst (Texture_update img2x2 0 0 (tex (fst fb00), snd fb00)),
                snd (Texture_update img2x2 0 0 (tex (fst fb00), snd fb00)))"
    by simp
  from Texture_new_deferred[OF zero fb00_tex]
  have "width (tex (fst fb00)) = 0" "height (tex (fst fb00)) = 0" by simp_all
  with update_keeps_size[OF zero fb00_tex upd, of "fst fb00"]
  show ?thesis
    by (simp add: img2x2_def FrameBuffer_width_def FrameBuffer_height_def)
qed

section \<open>Flushing\<close>

lemma gl_create_quiet:
  "BUFFER_SIZE (snd (gl_create g)) = BUFFER_SIZE g"
  "ARRAY_BUFFER_BINDING (snd (gl_create g)) = ARRAY_BUFFER_BINDING g"
  "ELEMENT_ARRAY_BUFFER_BINDING (snd (gl_create g)) = ELEMENT_ARRAY_BUFFER_BINDING g"
  by (simp_all add: gl_create_def split: list.splits)

lemma setTexture2D_quiet:
  "filter is_upload_or_draw (calls (setTexture2D x g)) = filter is_upload_or_draw (calls g)"
  "BUFFER_SIZE (setTexture2D x g) = BUFFER_SIZE g"
  "ARRAY_BUFFER_BINDING (setTexture2D x g) = ARRAY_BUFFER_BINDING g"
  "ELEMENT_ARRAY_BUFFER_BINDING (setTexture2D x g) = ELEMENT_ARRAY_BUFFER_BINDING g"
proof -
  have "calls (snd (gl_create g)) = calls g"
    by (rule gl_create_frame)
  then show "filter is_upload_or_draw (calls (setTexture2D x g)) = filter is_upload_or_draw (calls g)"
    by (cases "gl_create g")
       (simp add: setTexture2D_def bindTexture_def emit_def split: option.splits)
  show "BUFFER_SIZE (setTexture2D x g) = BUFFER_SIZE g"
    using gl_create_quiet(1)[of g]
    by (cases "gl_create g")
       (simp add: setTexture2D_def bindTexture_def emit_def split: option.splits)
  show "ARRAY_BUFFER_BINDING (setTexture2D x g) = ARRAY_BUFFER_BINDING g"
    using gl_create_quiet(2)[of g]
    by (cases "gl_create g")
       (simp add: setTexture2D_def bindTexture_def emit_def split: option.splits)
  show "ELEMENT_ARRAY_BUFFER_BINDING (setTexture2D x g) = ELEMENT_ARRAY_BUFFER_BINDING g"
    using gl_create_quiet(3)[of g]
    by (cases "gl_create g")
       (simp add: setTexture2D_def bindTexture_def emit_def split: option.splits)
qed

lemma setArrayBuffer_quiet:
  "filter is_upload_or_draw (calls (setArrayBuffer x g)) = filter is_upload_or_draw (calls g)"
  "BUFFER_SIZE (setArrayBuffer x g) = BUFFER_SIZE g"
  "ARRAY_BUFFER_BINDING (setArrayBuffer (Some b) g) = Some b"
  "ELEMENT_ARRAY_BUFFER_BINDING (setArrayBuffer x g) = ELEMENT_ARRAY_BUFFER_BINDING g"
  by (simp_all add: setArrayBuffer_def bindBuffer_def emit_def split: option.splits)

lemma setElementArrayBuffer_quiet:
  "filter is_upload_or_draw (calls (setElementArrayBuffer x g)) = filter is_upload_or_draw (calls g)"
  "BUFFER_SIZE (setElementArrayBuffer x g) = BUFFER_SIZE g"
  "ARRAY_BUFFER_BINDING (setElementArrayBuffer x g) = ARRAY_BUFFER_BINDING g"
  "ELEMENT_ARRAY_BUFFER_BINDING (setElementArrayBuffer (Some b) g) = Some b"
  by (simp_all add: setElementArrayBuffer_def bindBuffer_def emit_def split: option.splits)

lemma emit_quiet:
  "filter is_upload_or_draw (calls (emit e g))
     = filter is_upload_or_draw (calls g) @ (if is_upload_or_draw e then [e] else [])"
  "BUFFER_SIZE (emit e g) = BUFFER_SIZE g"
  "ARRAY_BUFFER_BINDING (emit e g) = ARRAY_BUFFER_BINDING g"
  "ELEMENT_ARRAY_BUFFER_BINDING (emit e g) = ELEMENT_ARRAY_BUFFER_BINDING g"
  by (simp_all add: emit_def)

lemma fold_emit:
  "fold (\<lambda>i. emit (f i)) xs g = g\<lparr>calls := calls g @ map f xs\<rparr>"
  by (induction xs arbitrary: g) (simp_all add: emit_def)

lemma attribs_calls:
  "\<exists>es. attribs i st offset fmt g = g\<lparr>calls := calls g @ es\<rparr>
        \<and> filter is_upload_or_draw es = []"
proof (induction fmt arbitrary: i offset g)
  case Nil
  show ?case by (rule exI[of _ "[]"]) simp
next
  case (Cons f fs)
  let ?g1 = "emit (VertexAttribPointer i (snd f) (st * 4) offset)
               (emit (EnableVertexAttribArray i) g)"
  from Cons[of "Suc i" "offset + snd f * 4" ?g1] obtain es where
    es: "attribs (Suc i) st (offset + snd f * 4) fs ?g1 = ?g1\<lparr>calls := calls ?g1 @ es\<rparr>"
    and quiet: "filter is_upload_or_draw es = []"
    by blast
  from es quiet show ?case
    by (intro exI[of _ "[EnableVertexAttribArray i,
                         VertexAttribPointer i (snd f) (st * 4) offset] @ es"])
       (simp add: emit_def)
qed

lemma setVertexFormat_quiet:
  "filter is_upload_or_draw (calls (gl (setVertexFormat fmt c))) = filter is_upload_or_draw (calls (gl c))"
  "BUFFER_SIZE (gl (setVertexFormat fmt c)) = BUFFER_SIZE (gl c)"
  "ARRAY_BUFFER_BINDING (gl (setVertexFormat fmt c)) = ARRAY_BUFFER_BINDING (gl c)"
  "ELEMENT_ARRAY_BUFFER_BINDING (gl (setVertexFormat fmt c))
     = ELEMENT_ARRAY_BUFFER_BINDING (gl c)"
proof -
  let ?g = "(gl c)\<lparr>calls := calls (gl c)
               @ map DisableVertexAttribArray [length fmt..<MAX_VERTEX_ATTRIBS (gl c)]\<rparr>"
  obtain es where es: "attribs 0 (sum_list (map snd fmt)) 0 fmt ?g = ?g\<lparr>calls := calls ?g @ es\<rparr>"
    and quiet: "filter is_upload_or_draw es = []"
    using attribs_calls by blast
  have dis: "filter is_upload_or_draw (map DisableVertexAttribArray xs) = []" for xs
    by (induction xs) simp_all
  have g: "gl (setVertexFormat fmt c)
           = (if deepEq_format fmt (curVertexFormat c) then gl c else ?g\<lparr>calls := calls ?g @ es\<rparr>)"
    by (simp add: setVertexFormat_def Let_def fold_emit withGl_def es)
  show "filter is_upload_or_draw (calls (gl (setVertexFormat fmt c))) = filter is_upload_or_draw (calls (gl c))"
    by (simp add: g quiet dis)
  show "BUFFER_SIZE (gl (setVertexFormat fmt c)) = BUFFER_SIZE (gl c)"
    by (simp add: g)
  show "ARRAY_BUFFER_BINDING (gl (setVertexFormat fmt c)) = ARRAY_BUFFER_BINDING (gl c)"
    by (simp add: g)
  show "ELEMENT_ARRAY_BUFFER_BINDING (gl (setVertexFormat fmt c))
     = ELEMENT_ARRAY_BUFFER_BINDING (gl c)"
    by (simp add: g)
qed

lemmas quiet =
  gl_of_stack_calls setTexture2D_quiet setArrayBuffer_quiet setElementArrayBuffer_quiet
  emit_quiet setVertexFormat_quiet bufferSubData_def

lemma flush_renderer:
  "fst (flush w h (r, c)) = r
   \<or> fst (flush w h (r, c)) = r\<lparr>vqueue := [], iqueue := [], numDraws := numDraws r + 1\<rparr>"
  by (simp add: flush_def Let_def split: option.splits)

lemma flush_returns:
  "curPrimitive r = None \<or> curPrimitive r = Some 0 \<or> curShader r = None
   \<or> vqueue r = [] \<or> iqueue r = [] \<Longrightarrow> flush w h (r, c) = (r, c)"
  by (auto simp: flush_def split: option.splits)

lemma flush_buffer_size:
  "BUFFER_SIZE (gl (snd (flush w h (r, c)))) = BUFFER_SIZE (gl c)"
  by (simp add: flush_def Let_def quiet split: option.splits)

lemma flush_clears:
  assumes "curPrimitive r = Some p" and "p \<noteq> 0" and "curShader r = Some sh"
    and "vqueue r \<noteq> []" and "iqueue r \<noteq> []"
    and "length (vqueue r) * 4 \<le> BUFFER_SIZE (gl c) (glVBuf r)"
    and "length (iqueue r) * 2 \<le> BUFFER_SIZE (gl c) (glIBuf r)"
  shows "fst (flush w h (r, c)) = r\<lparr>vqueue := [], iqueue := [], numDraws := numDraws r + 1\<rparr>"
    and "gpu_work (snd (flush w h (r, c)))
         = gpu_work c
           @ [BufferSubData ARRAY_BUFFER (length (vqueue r) * 4),
              BufferSubData ELEMENT_ARRAY_BUFFER (length (iqueue r) * 2),
              DrawElements p (length (iqueue r))]"
  using assms
  by (simp_all add: flush_def Let_def quiet getBufferParameter_def bound_buffer_def
      gpu_work_def split: option.splits)

section \<open>Live pushes\<close>

lemma setBlend_renderer: "fst (setBlend b (r, c)) = r\<lparr>curBlend := b\<rparr>"
  by (simp add: setBlend_def)

lemma setBlend_quiet:
  "filter is_upload_or_draw (calls (gl (snd (setBlend b (r, c))))) = filter is_upload_or_draw (calls (gl c))"
  "BUFFER_SIZE (gl (snd (setBlend b (r, c)))) = BUFFER_SIZE (gl c)"
  by (cases b; simp add: setBlend_def blendFuncSeparate_def emit_def)+

lemma submit_live:
  "picture r = None \<Longrightarrow>
     submit a (r, c)
       = enqueue a (if must_flush r a
                    then setBlend (s_blend a) (flush (s_width a) (s_height a) (r, c))
                    else (r, c))"
  by (simp add: submit_def push_def must_flush_def enqueue_def)

lemma after_submit:
  assumes "picture r = None" and "submit a (r, c) = (r1, c1)"
  shows "curPrimitive r1 = Some (s_primitive a) \<and> curTex r1 = s_tex a
         \<and> curShader r1 = Some (s_shader a) \<and> curUniform r1 = s_uniform a
         \<and> curBlend r1 = s_blend a \<and> curFixed r1 = Some (s_fixed a)
         \<and> picture r1 = None \<and> maxVertices r1 = maxVertices r
         \<and> maxIndices r1 = maxIndices r \<and> stride r1 = stride r"
proof (cases "must_flush r a")
  case True
  obtain rf cf where f: "flush (s_width a) (s_height a) (r, c) = (rf, cf)"
    by (cases "flush (s_width a) (s_height a) (r, c)")
  with flush_renderer[of "s_width a" "s_height a" r c]
  have "rf = r \<or> rf = r\<lparr>vqueue := [], iqueue := [], numDraws := numDraws r + 1\<rparr>"
    by simp
  moreover from assms True f
  have "(r1, c1) = enqueue a (setBlend (s_blend a) (rf, cf))"
    by (simp add: submit_live)
  ultimately show ?thesis
    using assms(1) by (auto simp: enqueue_def setBlend_def split: if_splits)
next
  case False
  with assms have "(r1, c1) = enqueue a (r, c)"
    by (simp add: submit_live)
  with False assms(1) show ?thesis
    by (auto simp: enqueue_def must_flush_def)
qed

lemma submit_tri_r0:
  "fst (submit tri (r0, c)) =
     r0\<lparr>vqueue := [Finite 0, Finite 0, Finite 1, Finite 0],
        iqueue := [Finite 0, Finite 1, Finite 0],
        curPrimitive := Some 4, curShader := Some 1, curTex := None,
        curUniform := None, curFixed := Some False\<rparr>"
  by (simp add: submit_live r0_def must_flush_def flush_def setBlend_def enqueue_def
      tri_def jsdiv_def)

section \<open>Index rebasing\<close>

lemma submit_tri_twice:
  "fst (submit tri (submit tri (r0, c))) =
     r0\<lparr>vqueue := [Finite 0, Finite 0, Finite 1, Finite 0,
                   Finite 0, Finite 0, Finite 1, Finite 0],
        iqueue := [Finite 0, Finite 1, Finite 0, Finite 2, Finite 3, Finite 2],
        curPrimitive := Some 4, curShader := Some 1, curTex := None,
        curUniform := None, curFixed := Some False\<rparr>"
proof -
  obtain r1 c1 where s1: "submit tri (r0, c) = (r1, c1)"
    by (cases "submit tri (r0, c)")
  with submit_tri_r0[of c] have r1:
    "r1 = r0\<lparr>vqueue := [Finite 0, Finite 0, Finite 1, Finite 0],
        iqueue := [Finite 0, Finite 1, Finite 0],
        curPrimitive := Some 4, curShader := Some 1, curTex := None,
        curUniform := None, curFixed := Some False\<rparr>"
    by simp
  show ?thesis
    unfolding s1 r1
    by (simp add: submit_live must_flush_def enqueue_def r0_def tri_def jsdiv_def
        same_object_def deepEq_uniform_def)
qed

lemma jsdiv_exact:
  assumes "s \<noteq> 0" and "s dvd n"
  shows "jsdiv n s = Finite (of_nat (n div s))"
proof -
  from assms(2) obtain q where n: "n = s * q" ..
  with assms(1) show ?thesis
    by (simp add: jsdiv_def)
qed

text \<open>
  Claim C3, as amended. Let \<open>a\<close> be pushed live and \<open>b\<close> after it in the same batch
  (equal tuples, data within the maxima), in a renderer whose stride \<open>s\<close> is not zero,
  with a vertex queue whose length is a multiple of \<open>s\<close> when \<open>b\<close> is appended, and
  let the indices of \<open>b\<close> be natural numbers \<open>k\<close> such that \<open>k\<close> plus the number of
  queued vertices stays below \<open>2^53\<close>. Each index \<open>k\<close> is stored as \<open>k\<close> plus the
  length of the vertex queue divided by \<open>s\<close>. When the vertex queue then holds exactly
  the \<open>n\<close> floats of \<open>a\<close> (that is, \<open>a\<close> opened the batch), this is \<open>k + n / s\<close>.
\<close>

theorem index_rebasing:
  assumes "picture r = None"
    and "submit a (r, c) = (r1, c1)"
    and "same_tuple a b" and "within_maxima r1 b"
    and "submit b (r1, c1) = (r2, c2)"
    and "stride r \<noteq> 0" and "stride r dvd length (vqueue r1)"
    and "s_indices b = map (\<lambda>k. Finite (of_nat k)) ks"
    and "\<forall>k\<in>set ks. k + length (vqueue r1) div stride r < 2 ^ 53"
  shows "iqueue r2
           = iqueue r1
             @ map (\<lambda>k. Finite (of_nat (k + length (vqueue r1) div stride r))) ks
         \<and> (vqueue r1 = s_vertices a \<longrightarrow>
              iqueue r2
                = iqueue r1
                  @ map (\<lambda>k. Finite (of_nat (k + length (s_vertices a) div stride r))) ks)"
proof -
  note f1 = after_submit[OF assms(1,2)]
  then have live1: "picture r1 = None" by simp
  from f1 assms(3,4) have "\<not> must_flush r1 b"
    by (auto simp: must_flush_def same_tuple_def within_maxima_def)
  with submit_live[OF live1, of b c1] assms(5) have "(r2, c2) = enqueue b (r1, c1)"
    by simp
  moreover from f1 assms(6,7)
  have "jsdiv (length (vqueue r1)) (stride r1)
        = Finite (of_nat (length (vqueue r1) div stride r))"
    by (simp add: jsdiv_exact)
  ultimately have "iqueue r2
           = iqueue r1
             @ map (\<lambda>k. Finite (of_nat (k + length (vqueue r1) div stride r))) ks"
    by (simp add: enqueue_def assms(8))
  then show ?thesis
    by auto
qed

theorem index_rebasing_witness:
  "picture r0 = None \<and> same_tuple tri dot
   \<and> within_maxima (fst (submit tri (r0, c0))) dot
   \<and> stride r0 = 2 \<and> stride r0 dvd length (vqueue (fst (submit tri (r0, c0))))
   \<and> s_indices dot = map (\<lambda>k. Finite (of_nat k)) [0]
   \<and> vqueue (fst (submit tri (r0, c0))) = s_vertices tri
   \<and> iqueue (fst (submit dot (submit tri (r0, c0))))
       = iqueue (fst (submit tri (r0, c0))) @ [Finite 2]"
proof -
  have live: "picture r0 = None" and st: "stride r0 = 2" "stride r0 \<noteq> 0"
    by (simp_all add: r0_def)
  have s1: "submit tri (r0, c0) = (fst (submit tri (r0, c0)), snd (submit tri (r0, c0)))"
    by simp
  have s2: "submit dot (fst (submit tri (r0, c0)), snd (submit tri (r0, c0)))
            = (fst (submit dot (submit tri (r0, c0))), snd (submit dot (submit tri (r0, c0))))"
    by simp
  have fits: "within_maxima (fst (submit tri (r0, c0))) dot"
    unfolding submit_tri_r0 by (simp add: within_maxima_def r0_def dot_def tri_def)
  have same: "same_tuple tri dot"
    by (simp add: same_tuple_def dot_def tri_def deepEq_uniform_def)
  have opens: "vqueue (fst (submit tri (r0, c0))) = s_vertices tri"
    unfolding submit_tri_r0 by (simp add: tri_def)
  have aligned: "stride r0 dvd length (vqueue (fst (submit tri (r0, c0))))"
    unfolding submit_tri_r0 by (simp add: r0_def)
  have ks: "s_indices dot = map (\<lambda>k. Finite (of_nat k)) [0]"
    by (simp add: dot_def tri_def)
  have small: "\<forall>k\<in>set [0]. k + length (vqueue (fst (submit tri (r0, c0)))) div stride r0
                 < (2::nat) ^ 53"
    unfolding submit_tri_r0 by (simp add: r0_def)
  from index_rebasing[OF live s1 same fits s2 st(2) aligned ks small] opens
  have "iqueue (fst (submit dot (submit tri (r0, c0))))
        = iqueue (fst (submit tri (r0, c0)))
          @ map (\<lambda>k. Finite (of_nat (k + length (s_vertices tri) div stride r0))) [0]"
    by blast
  also have "map (\<lambda>k. Finite (of_nat (k + length (s_vertices tri) div stride r0))) [0]
             = [Finite 2]"
    by (simp add: tri_def r0_def)
  finally show ?thesis
    using live same fits opens st(1) aligned ks by simp
qed

text \<open>
  Three pushes of one batch: \<open>tri\<close>, then \<open>tri\<close> (the geometry A of the claim, \<open>n = 4\<close>
  floats, stride 2), then \<open>dot\<close> (B). The index 0 of \<open>dot\<close> is stored as 4, not as
  \<open>0 + 4 / 2\<close>.
\<close>

theorem index_rebasing_counterexample:
  "same_tuple tri dot
   \<and> within_maxima (fst (submit tri (submit tri (r0, c0)))) dot
   \<and> iqueue (fst (submit dot (submit tri (submit tri (r0, c0)))))
       \<noteq> iqueue (fst (submit tri (submit tri (r0, c0))))
         @ map (\<lambda>i. jsadd i (jsdiv (length (s_vertices tri)) (stride r0))) (s_indices dot)"
proof -
  obtain r2 c2 where s2: "submit tri (submit tri (r0, c0)) = (r2, c2)"
    by (cases "submit tri (submit tri (r0, c0))")
  with submit_tri_twice[of c0] have r2:
    "r2 = r0\<lparr>vqueue := [Finite 0, Finite 0, Finite 1, Finite 0,
                   Finite 0, Finite 0, Finite 1, Finite 0],
        iqueue := [Finite 0, Finite 1, Finite 0, Finite 2, Finite 3, Finite 2],
        curPrimitive := Some 4, curShader := Some 1, curTex := None,
        curUniform := None, curFixed := Some False\<rparr>"
    by simp
  show ?thesis
    unfolding s2 r2
    by (simp add: submit_live must_flush_def enqueue_def r0_def tri_def dot_def jsdiv_def
        same_object_def deepEq_uniform_def same_tuple_def within_maxima_def)
qed

section \<open>Capacity\<close>

lemma gl_create_Some:
  assumes "gl_create g = (Some h, g')"
  shows "h = fresh g \<and> fresh g' = Suc (fresh g) \<and> BUFFER_SIZE g' = BUFFER_SIZE g"
  using assms by (auto simp: gl_create_def split: list.splits if_splits)

lemma array_buffer_setup:
  "BUFFER_SIZE (gl (popArrayBuffer (withGl (bufferData ARRAY_BUFFER n)
                      (pushArrayBuffer (Some b) c))))
     = (BUFFER_SIZE (gl c))(b := n)"
  "fresh (gl (popArrayBuffer (withGl (bufferData ARRAY_BUFFER n)
                (pushArrayBuffer (Some b) c))))
     = fresh (gl c)"
  by (simp_all add: gl_of_stack_calls setArrayBuffer_def bindBuffer_def bufferData_def
      bound_buffer_def emit_def split: option.splits)

lemma element_buffer_setup:
  "BUFFER_SIZE (gl (popElementArrayBuffer (withGl (bufferData ELEMENT_ARRAY_BUFFER n)
                      (pushElementArrayBuffer (Some b) c))))
     = (BUFFER_SIZE (gl c))(b := n)"
  by (simp add: gl_of_stack_calls setElementArrayBuffer_def bindBuffer_def bufferData_def
      bound_buffer_def emit_def split: option.splits)

lemma BatchRenderer_new_ok:
  assumes "BatchRenderer_new format maxV maxI c = Inr rc"
  shows "renderer_ok rc \<and> maxVertices (fst rc) = maxV \<and> maxIndices (fst rc) = maxI"
proof -
  obtain v g1 where cr1: "gl_create (gl c) = (v, g1)"
    by (cases "gl_create (gl c)")
  with assms obtain vb where v: "v = Some vb"
    by (cases v) (simp_all add: BatchRenderer_new_def)
  let ?c3 = "popArrayBuffer (withGl (bufferData ARRAY_BUFFER (maxV * 4))
               (pushArrayBuffer (Some vb) (c\<lparr>gl := g1\<rparr>)))"
  obtain i g4 where cr2: "gl_create (gl ?c3) = (i, g4)"
    by (cases "gl_create (gl ?c3)")
  with assms cr1 v obtain ib where i: "i = Some ib"
    by (cases i) (simp_all add: BatchRenderer_new_def Let_def)
  from gl_create_Some[of "gl c" vb g1] cr1 v have vb: "vb = fresh (gl c)"
    and f1: "fresh g1 = Suc (fresh (gl c))"
    by simp_all
  from gl_create_Some[of "gl ?c3" ib g4] cr2 i have ib: "ib = fresh (gl ?c3)"
    and b4: "BUFFER_SIZE g4 = BUFFER_SIZE (gl ?c3)"
    by simp_all
  from ib f1 have "ib = Suc (fresh (gl c))"
    by (simp add: array_buffer_setup)
  with vb have ne: "ib \<noteq> vb" by simp
  let ?c6 = "popElementArrayBuffer (withGl (bufferData ELEMENT_ARRAY_BUFFER (maxI * 2))
               (pushElementArrayBuffer (Some ib) (?c3\<lparr>gl := g4\<rparr>)))"
  have size: "BUFFER_SIZE (gl ?c6) = ((BUFFER_SIZE g1)(vb := maxV * 4))(ib := maxI * 2)"
    using element_buffer_setup[of "maxI * 2" ib "?c3\<lparr>gl := g4\<rparr>"]
      array_buffer_setup(1)[of "maxV * 4" vb "c\<lparr>gl := g1\<rparr>"] b4
    by simp
  from assms cr1 v cr2 i have rc: "rc = (\<lparr>glVBuf = vb, glIBuf = ib, vqueue = [], iqueue = [],
        stride = sum_list (map snd format), maxVertices = maxV, maxIndices = maxI,
        vertexFormat = format, numDraws = 0, curPrimitive = None, curTex = None,
        curShader = None, curUniform = None, curBlend = Normal, curFixed = None,
        picture = None\<rparr>, ?c6)"
    by (simp add: BatchRenderer_new_def Let_def)
  show ?thesis
    unfolding rc renderer_ok_def using ne by (simp add: size)
qed

text \<open>
  Two cases in which \<open>flush\<close> returns before it empties the queues: the current
  primitive is 0 (\<open>gl.POINTS\<close>), which \<open>!this.curPrimitive\<close> does not tell from
  \<open>null\<close>, and an index queue that is empty while the vertex queue is not. The
  admissible submissions below keep clear of both.
\<close>

lemma flush_keeps_queues_primitive_zero:
  "curPrimitive r = Some 0 \<Longrightarrow> fst (flush w h (r, c)) = r"
  by (simp add: flush_def Let_def split: option.splits)

lemma flush_keeps_queues_no_indices:
  "iqueue r = [] \<Longrightarrow> fst (flush w h (r, c)) = r"
  by (simp add: flush_def Let_def split: option.splits)

lemma flush_ok:
  assumes "renderer_ok (r, c)"
  shows "\<exists>n. fst (flush w h (r, c)) = r\<lparr>vqueue := [], iqueue := [], numDraws := n\<rparr>"
proof (cases "vqueue r = []")
  case True
  with assms have "iqueue r = []" by (simp add: renderer_ok_def)
  with True have "r = r\<lparr>vqueue := [], iqueue := [], numDraws := numDraws r\<rparr>"
    by simp
  with flush_renderer[of w h r c] True \<open>iqueue r = []\<close> show ?thesis
    by (metis (no_types, lifting) BatchRenderer.surjective BatchRenderer.update_convs(3,4,9))
next
  case False
  with assms obtain p sh where "curPrimitive r = Some p" "p \<noteq> 0" "curShader r = Some sh"
    by (auto simp: renderer_ok_def split: option.splits)
  moreover from False assms have "iqueue r \<noteq> []" by (simp add: renderer_ok_def)
  moreover from assms have "length (vqueue r) * 4 \<le> BUFFER_SIZE (gl c) (glVBuf r)"
    "length (iqueue r) * 2 \<le> BUFFER_SIZE (gl c) (glIBuf r)"
    by (simp_all add: renderer_ok_def)
  ultimately show ?thesis
    using flush_clears[of r p sh c w h] False by blast
qed

lemma renderer_ok_submit:
  assumes "renderer_ok (r, c)" and "admissible r a"
  shows "renderer_ok (submit a (r, c))
         \<and> maxVertices (fst (submit a (r, c))) = maxVertices r
         \<and> maxIndices (fst (submit a (r, c))) = maxIndices r"
proof (cases "must_flush r a")
  case True
  from assms(1) have live: "picture r = None" by (simp add: renderer_ok_def)
  obtain rf cf where f: "flush (s_width a) (s_height a) (r, c) = (rf, cf)"
    by (cases "flush (s_width a) (s_height a) (r, c)")
  from flush_ok[OF assms(1), of "s_width a" "s_height a"] f obtain n where
    rf: "rf = r\<lparr>vqueue := [], iqueue := [], numDraws := n\<rparr>" by auto
  have cf: "BUFFER_SIZE (gl cf) = BUFFER_SIZE (gl c)"
    using flush_buffer_size[of "s_width a" "s_height a" r c] f by simp
  obtain rb cb where b: "setBlend (s_blend a) (rf, cf) = (rb, cb)"
    by (cases "setBlend (s_blend a) (rf, cf)")
  have rb: "rb = rf\<lparr>curBlend := s_blend a\<rparr>"
    using setBlend_renderer[of "s_blend a" rf cf] b by simp
  have cb: "BUFFER_SIZE (gl cb) = BUFFER_SIZE (gl c)"
    using setBlend_quiet(2)[of "s_blend a" rf cf] b cf by simp
  from True live f b have "submit a (r, c) = enqueue a (rb, cb)"
    by (simp add: submit_live)
  with assms rb rf cb show ?thesis
    by (simp add: enqueue_def renderer_ok_def admissible_def)
next
  case False
  from assms(1) have live: "picture r = None" by (simp add: renderer_ok_def)
  with False have "submit a (r, c) = enqueue a (r, c)"
    by (simp add: submit_live)
  moreover from False have "curPrimitive r = Some (s_primitive a)"
    "curShader r = Some (s_shader a)"
    "length (vqueue r) + length (s_vertices a) \<le> maxVertices r"
    "length (iqueue r) + length (s_indices a) \<le> maxIndices r"
    by (auto simp: must_flush_def)
  ultimately show ?thesis
    using assms by (simp add: enqueue_def renderer_ok_def admissible_def)
qed

lemma renderer_ok_submit_all:
  assumes "renderer_ok rc" and "\<forall>a\<in>set subs. admissible (fst rc) a"
  shows "renderer_ok (submit_all subs rc)
         \<and> maxVertices (fst (submit_all subs rc)) = maxVertices (fst rc)
         \<and> maxIndices (fst (submit_all subs rc)) = maxIndices (fst rc)"
  using assms
proof (induction subs arbitrary: rc)
  case Nil
  then show ?case by (simp add: submit_all_def)
next
  case (Cons a subs)
  obtain r c where rc: "rc = (r, c)" by (cases rc)
  have step: "submit_all (a # subs) rc = submit_all subs (submit a (r, c))"
    by (simp add: submit_all_def rc)
  from Cons.prems rc have "renderer_ok (r, c)" "admissible r a" by simp_all
  note one = renderer_ok_submit[OF this]
  moreover from one Cons.prems(2) rc
  have "\<forall>b\<in>set subs. admissible (fst (submit a (r, c))) b"
    by (simp add: admissible_def)
  ultimately show ?case
    using Cons.IH[of "submit a (r, c)"] step rc by simp
qed

text \<open>
  Claim C2, as amended. Start from a live renderer as its constructor leaves it, or from
  any state reached from there by pushes of this kind, and push submissions each of
  which fits the maxima by itself, names a primitive other than 0 and has vertices
  exactly when it has indices. After every push the queues are within \<open>maxVertices\<close>
  and \<open>maxIndices\<close>; and whenever the next such submission would not fit, the push is
  \<open>flush\<close>, then \<open>setBlend\<close>, then the append, and that flush leaves both queues empty.
\<close>

theorem capacity_invariant:
  assumes "renderer_ok rc" and "\<forall>a\<in>set subs. admissible (fst rc) a"
  shows "length (vqueue (fst (submit_all subs rc))) \<le> maxVertices (fst rc)
         \<and> length (iqueue (fst (submit_all subs rc))) \<le> maxIndices (fst rc)
         \<and> (\<forall>a. admissible (fst rc) a \<and> \<not> within_maxima (fst (submit_all subs rc)) a \<longrightarrow>
              submit a (submit_all subs rc)
                = enqueue a (setBlend (s_blend a)
                               (flush (s_width a) (s_height a) (submit_all subs rc)))
              \<and> vqueue (fst (flush (s_width a) (s_height a) (submit_all subs rc))) = []
              \<and> iqueue (fst (flush (s_width a) (s_height a) (submit_all subs rc))) = [])"
proof -
  obtain r' c' where rc': "submit_all subs rc = (r', c')"
    by (cases "submit_all subs rc")
  from renderer_ok_submit_all[OF assms] rc' have ok: "renderer_ok (r', c')"
    and mv: "maxVertices r' = maxVertices (fst rc)"
    and mi: "maxIndices r' = maxIndices (fst rc)"
    by simp_all
  from ok have live: "picture r' = None" by (simp add: renderer_ok_def)
  have over: "submit a (r', c')
                = enqueue a (setBlend (s_blend a) (flush (s_width a) (s_height a) (r', c')))
              \<and> vqueue (fst (flush (s_width a) (s_height a) (r', c'))) = []
              \<and> iqueue (fst (flush (s_width a) (s_height a) (r', c'))) = []"
    if "\<not> within_maxima r' a" for a
  proof -
    from that have "must_flush r' a"
      by (auto simp: within_maxima_def must_flush_def)
    moreover from flush_ok[OF ok, of "s_width a" "s_height a"] obtain n where
      "fst (flush (s_width a) (s_height a) (r', c'))
       = r'\<lparr>vqueue := [], iqueue := [], numDraws := n\<rparr>"
      by blast
    ultimately show ?thesis
      using live by (simp add: submit_live)
  qed
  from ok mv mi over show ?thesis
    unfolding rc' by (simp add: renderer_ok_def)
qed

lemma rc0_ok: "renderer_ok (r0, c0)"
  using BatchRenderer_new_ok[OF rc0_new] by (simp add: rc0_split)

theorem capacity_invariant_witness:
  "renderer_ok (r0, c0) \<and> admissible r0 tri \<and> admissible r0 wide
   \<and> length (vqueue (fst (submit_all [tri, tri, wide] (r0, c0)))) \<le> 12
   \<and> length (iqueue (fst (submit_all [tri, tri, wide] (r0, c0)))) \<le> 9
   \<and> \<not> within_maxima (fst (submit_all [tri, tri] (r0, c0))) wide
   \<and> vqueue (fst (flush 640 480 (submit_all [tri, tri] (r0, c0)))) = []"
proof -
  have adm: "admissible r0 tri" "admissible r0 wide"
    by (simp_all add: admissible_def r0_def tri_def wide_def)
  have two: "submit_all [tri, tri] (r0, c0) = submit tri (submit tri (r0, c0))"
    by (simp add: submit_all_def)
  have over: "\<not> within_maxima (fst (submit_all [tri, tri] (r0, c0))) wide"
    unfolding two submit_tri_twice
    by (simp add: within_maxima_def r0_def wide_def tri_def)
  have size: "maxVertices r0 = 12" "maxIndices r0 = 9"
    by (simp_all add: r0_def)
  have wh: "s_width wide = 640" "s_height wide = 480"
    by (simp_all add: wide_def tri_def)
  have pre3: "\<forall>a\<in>set [tri, tri, wide]. admissible (fst (r0, c0)) a"
    and pre2: "\<forall>a\<in>set [tri, tri]. admissible (fst (r0, c0)) a"
    using adm by simp_all
  from capacity_invariant[OF rc0_ok pre3] size
  have A: "length (vqueue (fst (submit_all [tri, tri, wide] (r0, c0)))) \<le> 12
           \<and> length (iqueue (fst (submit_all [tri, tri, wide] (r0, c0)))) \<le> 9"
    by simp
  note next_push =
    capacity_invariant[OF rc0_ok pre2, THEN conjunct2, THEN conjunct2, rule_format, of wide]
  from next_push adm(2) over
  have "vqueue (fst (flush (s_width wide) (s_height wide)
                       (submit_all [tri, tri] (r0, c0)))) = []"
    by simp
  then have B: "vqueue (fst (flush 640 480 (submit_all [tri, tri] (r0, c0)))) = []"
    by (simp only: wh)
  from A B rc0_ok adm over show ?thesis
    by simp
qed

text \<open>
  One push of fourteen vertex floats on the renderer \<open>rc0\<close>, whose \<open>maxVertices\<close> is
  twelve: \<open>flush\<close> is called (and finds the queue empty), the data is appended, and the
  vertex queue is longer than \<open>maxVertices\<close>.
\<close>

theorem capacity_invariant_counterexample:
  "maxVertices (fst (submit big (r0, c0))) < length (vqueue (fst (submit big (r0, c0))))"
  by (simp add: submit_live r0_def must_flush_def flush_def setBlend_def enqueue_def
      big_def tri_def)

section \<open>Batching\<close>

lemma setBlend_work: "gpu_work (snd (setBlend b (r, c))) = gpu_work c"
  using setBlend_quiet(1)[of b r c] by (simp add: gpu_work_def)

lemma submit_bare_r0:
  "submit bare (r0, c) =
     (r0\<lparr>vqueue := [Finite 0, Finite 0, Finite 1, Finite 0], iqueue := [],
         curPrimitive := Some 4, curShader := Some 1, curTex := None,
         curUniform := None, curFixed := Some False\<rparr>, c)"
  by (simp add: submit_live r0_def must_flush_def flush_def setBlend_def enqueue_def
      bare_def tri_def)

text \<open>
  Claim C1, as amended. Take a live renderer as its constructor and admissible pushes
  leave it, and two consecutive admissible pushes, \<open>a\<close> and then \<open>b\<close>, the first of
  which leaves data in the queue; a uniform object passed to both has one contents. If
  the data of \<open>b\<close> fits the maxima, the second push uploads and draws exactly when the
  two material tuples do not compare equal. Whenever the tuples differ or the data would
  not fit, the second push is \<open>flush(width, height)\<close>, then \<open>setBlend(blend)\<close>, then the
  append: the queued data of \<open>a\<close> is uploaded and drawn once, the draw counter goes up
  by one, the queues then hold the data of \<open>b\<close> alone, and the current blend mode is that
  of \<open>b\<close>. Otherwise the second push is the append alone: nothing is sent to the GPU and
  the data of \<open>b\<close> joins the queue.
\<close>

theorem batching:
  assumes "renderer_ok (r, c)" and "admissible r a" and "admissible r b"
    and "same_object (s_uniform a) (s_uniform b)
         \<longrightarrow> deepEq_uniform (s_uniform a) (s_uniform b)"
    and "submit a (r, c) = (r1, c1)" and "vqueue r1 \<noteq> []"
    and "submit b (r1, c1) = (r2, c2)"
  shows "(within_maxima r1 b \<longrightarrow>
            (numDraws r2 = numDraws r1 \<longleftrightarrow> same_tuple a b)
            \<and> (gpu_work c2 = gpu_work c1 \<longleftrightarrow> same_tuple a b))
         \<and> (\<not> same_tuple a b \<or> \<not> within_maxima r1 b \<longrightarrow>
              (r2, c2) = enqueue b (setBlend (s_blend b)
                                      (flush (s_width b) (s_height b) (r1, c1)))
              \<and> numDraws r2 = numDraws r1 + 1
              \<and> gpu_work c2
                  = gpu_work c1
                    @ [BufferSubData ARRAY_BUFFER (length (vqueue r1) * 4),
                       BufferSubData ELEMENT_ARRAY_BUFFER (length (iqueue r1) * 2),
                       DrawElements (s_primitive a) (length (iqueue r1))]
              \<and> vqueue r2 = s_vertices b
              \<and> length (iqueue r2) = length (s_indices b)
              \<and> curBlend r2 = s_blend b)
         \<and> (same_tuple a b \<and> within_maxima r1 b \<longrightarrow>
              (r2, c2) = enqueue b (r1, c1)
              \<and> numDraws r2 = numDraws r1 \<and> c2 = c1
              \<and> vqueue r2 = vqueue r1 @ s_vertices b)"
proof -
  from assms(1) have live: "picture r = None" by (simp add: renderer_ok_def)
  note f1 = after_submit[OF live assms(5)]
  then have live1: "picture r1 = None" by simp
  from renderer_ok_submit[OF assms(1,2)] assms(5) have ok1: "renderer_ok (r1, c1)"
    by simp
  from f1 assms(4)
  have guard: "must_flush r1 b \<longleftrightarrow> \<not> same_tuple a b \<or> \<not> within_maxima r1 b"
    by (auto simp: must_flush_def same_tuple_def within_maxima_def)
  have step: "(r2, c2) = enqueue b (if must_flush r1 b
                    then setBlend (s_blend b) (flush (s_width b) (s_height b) (r1, c1))
                    else (r1, c1))"
    using submit_live[OF live1, of b c1] assms(7) by simp
  have quiet_case: "(r2, c2) = enqueue b (r1, c1) \<and> numDraws r2 = numDraws r1 \<and> c2 = c1
                    \<and> vqueue r2 = vqueue r1 @ s_vertices b"
    if "\<not> must_flush r1 b"
    using that step by (simp add: enqueue_def)
  have flush_case: "(r2, c2) = enqueue b (setBlend (s_blend b)
                                      (flush (s_width b) (s_height b) (r1, c1)))
              \<and> numDraws r2 = numDraws r1 + 1
              \<and> gpu_work c2
                  = gpu_work c1
                    @ [BufferSubData ARRAY_BUFFER (length (vqueue r1) * 4),
                       BufferSubData ELEMENT_ARRAY_BUFFER (length (iqueue r1) * 2),
                       DrawElements (s_primitive a) (length (iqueue r1))]
              \<and> vqueue r2 = s_vertices b
              \<and> length (iqueue r2) = length (s_indices b)
              \<and> curBlend r2 = s_blend b"
    if must: "must_flush r1 b"
  proof -
    from f1 have prim: "curPrimitive r1 = Some (s_primitive a)"
      and sh: "curShader r1 = Some (s_shader a)" by simp_all
    from assms(2) have nz: "s_primitive a \<noteq> 0" by (simp add: admissible_def)
    from ok1 assms(6) have iq: "iqueue r1 \<noteq> []" by (simp add: renderer_ok_def)
    from ok1 have vsz: "length (vqueue r1) * 4 \<le> BUFFER_SIZE (gl c1) (glVBuf r1)"
      and isz: "length (iqueue r1) * 2 \<le> BUFFER_SIZE (gl c1) (glIBuf r1)"
      by (simp_all add: renderer_ok_def)
    obtain rf cf where f: "flush (s_width b) (s_height b) (r1, c1) = (rf, cf)"
      by (cases "flush (s_width b) (s_height b) (r1, c1)")
    from flush_clears[OF prim nz sh assms(6) iq vsz isz, of "s_width b" "s_height b"] f
    have rf: "rf = r1\<lparr>vqueue := [], iqueue := [], numDraws := numDraws r1 + 1\<rparr>"
      and cf: "gpu_work cf
               = gpu_work c1
                 @ [BufferSubData ARRAY_BUFFER (length (vqueue r1) * 4),
                    BufferSubData ELEMENT_ARRAY_BUFFER (length (iqueue r1) * 2),
                    DrawElements (s_primitive a) (length (iqueue r1))]"
      by simp_all
    obtain rb cb where b: "setBlend (s_blend b) (rf, cf) = (rb, cb)"
      by (cases "setBlend (s_blend b) (rf, cf)")
    have rb: "rb = rf\<lparr>curBlend := s_blend b\<rparr>"
      using setBlend_renderer[of "s_blend b" rf cf] b by simp
    have cb: "gpu_work cb = gpu_work cf"
      using setBlend_work[of "s_blend b" rf cf] b by simp
    from step must f b have "(r2, c2) = enqueue b (rb, cb)" by simp
    with rb rf cb cf f b show ?thesis
      by (simp add: enqueue_def)
  qed
  from guard quiet_case flush_case show ?thesis
    by (cases "must_flush r1 b") auto
qed

theorem batching_witness:
  "renderer_ok (r0, c0) \<and> admissible r0 tri \<and> admissible r0 dot
   \<and> admissible r0 (dot\<lparr>s_blend := Add\<rparr>)
   \<and> vqueue (fst (submit tri (r0, c0))) \<noteq> []
   \<and> within_maxima (fst (submit tri (r0, c0))) dot
   \<and> same_tuple tri dot
   \<and> numDraws (fst (submit dot (submit tri (r0, c0))))
       = numDraws (fst (submit tri (r0, c0)))
   \<and> snd (submit dot (submit tri (r0, c0))) = snd (submit tri (r0, c0))
   \<and> \<not> same_tuple tri (dot\<lparr>s_blend := Add\<rparr>)
   \<and> numDraws (fst (submit (dot\<lparr>s_blend := Add\<rparr>) (submit tri (r0, c0))))
       = numDraws (fst (submit tri (r0, c0))) + 1
   \<and> gpu_work (snd (submit (dot\<lparr>s_blend := Add\<rparr>) (submit tri (r0, c0))))
       = gpu_work (snd (submit tri (r0, c0)))
         @ [BufferSubData ARRAY_BUFFER 16, BufferSubData ELEMENT_ARRAY_BUFFER 6,
            DrawElements 4 3]
   \<and> vqueue (fst (submit (dot\<lparr>s_blend := Add\<rparr>) (submit tri (r0, c0))))
       = [Finite 5, Finite 5]"
proof -
  let ?d = "dot\<lparr>s_blend := Add\<rparr>"
  let ?r1 = "fst (submit tri (r0, c0))"
  let ?c1 = "snd (submit tri (r0, c0))"
  have adm: "admissible r0 tri" "admissible r0 dot" "admissible r0 ?d"
    by (simp_all add: admissible_def r0_def tri_def dot_def)
  have coh: "same_object (s_uniform tri) (s_uniform b)
             \<longrightarrow> deepEq_uniform (s_uniform tri) (s_uniform b)"
    if "s_uniform b = None" for b
    using that by (simp add: tri_def deepEq_uniform_def)
  have un: "s_uniform dot = None" "s_uniform ?d = None"
    by (simp_all add: dot_def tri_def)
  have s1: "submit tri (r0, c0) = (?r1, ?c1)"
    by simp
  have s2: "submit b (?r1, ?c1)
            = (fst (submit b (submit tri (r0, c0))), snd (submit b (submit tri (r0, c0))))"
    for b by simp
  have data: "vqueue ?r1 \<noteq> []"
    unfolding submit_tri_r0 by simp
  have fits: "within_maxima ?r1 dot" "within_maxima ?r1 ?d"
    unfolding submit_tri_r0 by (simp_all add: within_maxima_def r0_def dot_def tri_def)
  have same: "same_tuple tri dot" "\<not> same_tuple tri ?d"
    by (simp_all add: same_tuple_def dot_def tri_def deepEq_uniform_def)
  have sizes: "length (vqueue ?r1) * 4 = 16" "length (iqueue ?r1) * 2 = 6"
    "length (iqueue ?r1) = 3" "s_primitive tri = 4" "s_vertices ?d = [Finite 5, Finite 5]"
    unfolding submit_tri_r0 by (simp_all add: tri_def dot_def)
  from batching[OF rc0_ok adm(1) adm(2) coh[OF un(1)] s1 data s2] fits(1) same(1)
  have A: "numDraws (fst (submit dot (submit tri (r0, c0)))) = numDraws ?r1
           \<and> snd (submit dot (submit tri (r0, c0))) = ?c1"
    by blast
  from batching[OF rc0_ok adm(1) adm(3) coh[OF un(2)] s1 data s2] same(2)
  have B: "numDraws (fst (submit ?d (submit tri (r0, c0)))) = numDraws ?r1 + 1
           \<and> gpu_work (snd (submit ?d (submit tri (r0, c0))))
               = gpu_work ?c1
                 @ [BufferSubData ARRAY_BUFFER (length (vqueue ?r1) * 4),
                    BufferSubData ELEMENT_ARRAY_BUFFER (length (iqueue ?r1) * 2),
                    DrawElements (s_primitive tri) (length (iqueue ?r1))]
           \<and> vqueue (fst (submit ?d (submit tri (r0, c0)))) = s_vertices ?d"
    by blast
  from A B rc0_ok adm data fits(1) same show ?thesis
    by (simp only: sizes) simp
qed

text \<open>
  Two live pushes with different blend modes, the first with vertices and no index. The
  data fits, the tuples differ, and yet no flush happens between them: \<open>flush\<close> is
  called and returns at once on the empty index queue. Nothing is uploaded or drawn (the
  only call is the change of blend function), the draw counter stays, and the vertices of
  both pushes sit in one queue.
\<close>

theorem batching_counterexample:
  "\<not> same_tuple bare (dot\<lparr>s_blend := Add\<rparr>)
   \<and> within_maxima (fst (submit bare (r0, c0))) (dot\<lparr>s_blend := Add\<rparr>)
   \<and> numDraws (fst (submit (dot\<lparr>s_blend := Add\<rparr>) (submit bare (r0, c0))))
       = numDraws (fst (submit bare (r0, c0)))
   \<and> vqueue (fst (submit (dot\<lparr>s_blend := Add\<rparr>) (submit bare (r0, c0))))
       = s_vertices bare @ s_vertices (dot\<lparr>s_blend := Add\<rparr>)
   \<and> calls (gl (snd (submit (dot\<lparr>s_blend := Add\<rparr>) (submit bare (r0, c0)))))
       = calls (gl c0) @ [BlendFuncSeparate ONE ONE ONE ONE_MINUS_SRC_ALPHA]"
  unfolding submit_bare_r0
  by (simp add: submit_live r0_def must_flush_def flush_def setBlend_def enqueue_def
      bare_def dot_def tri_def same_tuple_def within_maxima_def blendFuncSeparate_def
      emit_def)

section \<open>Recording into a Picture\<close>

lemma submit_recording_merge:
  assumes "picture r = Some p" and "commands p = cs @ [cmd]"
    and "same_material (material cmd) (material_of a)"
  shows "submit a (r, c)
         = (r\<lparr>picture := Some (p\<lparr>vertices := vertices p @ s_vertices a,
               indices := indices p
                          @ map (\<lambda>i. jsadd i (jsdiv (length (vertices p)) (stride r)))
                              (s_indices a),
               commands := cs @ [cmd\<lparr>count := count cmd + length (s_indices a)\<rparr>]\<rparr>)\<rparr>, c)"
  using assms by (simp add: submit_def push_def Let_def material_of_def)

lemma submit_recording_new:
  assumes "picture r = Some p"
    and "commands p = [] \<or> \<not> same_material (material (last (commands p))) (material_of a)"
  shows "submit a (r, c)
         = (r\<lparr>picture := Some (p\<lparr>vertices := vertices p @ s_vertices a,
               indices := indices p
                          @ map (\<lambda>i. jsadd i (jsdiv (length (vertices p)) (stride r)))
                              (s_indices a),
               commands := commands p
                           @ [\<lparr>material = material_of a, index = length (indices p),
                               count = length (s_indices a)\<rparr>]\<rparr>)\<rparr>, c)"
  using assms by (auto simp: submit_def push_def Let_def material_of_def)

lemma recording_run:
  assumes "picture r = Some p" and "commands p = cs @ [cmd]"
    and "\<forall>a\<in>set subs. same_material (material cmd) (material_of a)"
  shows "\<exists>p'. submit_all subs (r, c) = (r\<lparr>picture := Some p'\<rparr>, c)
              \<and> commands p'
                  = cs @ [cmd\<lparr>count := count cmd
                                        + sum_list (map (\<lambda>a. length (s_indices a)) subs)\<rparr>]"
  using assms
proof (induction subs arbitrary: r p cmd)
  case Nil
  then show ?case
    by (intro exI[of _ p]) (simp add: submit_all_def)
next
  case (Cons a subs)
  let ?p1 = "p\<lparr>vertices := vertices p @ s_vertices a,
               indices := indices p
                          @ map (\<lambda>i. jsadd i (jsdiv (length (vertices p)) (stride r)))
                              (s_indices a),
               commands := cs @ [cmd\<lparr>count := count cmd + length (s_indices a)\<rparr>]\<rparr>"
  let ?r1 = "r\<lparr>picture := Some ?p1\<rparr>"
  from Cons.prems have one: "submit a (r, c) = (?r1, c)"
    by (simp add: submit_recording_merge)
  have "\<exists>p'. submit_all subs (?r1, c) = (?r1\<lparr>picture := Some p'\<rparr>, c)
              \<and> commands p'
                  = cs @ [(cmd\<lparr>count := count cmd + length (s_indices a)\<rparr>)
                          \<lparr>count := count (cmd\<lparr>count := count cmd + length (s_indices a)\<rparr>)
                                     + sum_list (map (\<lambda>a. length (s_indices a)) subs)\<rparr>]"
    using Cons.prems(3)
      Cons.IH[of ?r1 ?p1 "cmd\<lparr>count := count cmd + length (s_indices a)\<rparr>"]
    by simp
  then obtain p' where "submit_all subs (?r1, c) = (?r1\<lparr>picture := Some p'\<rparr>, c)"
    and "commands p'
           = cs @ [cmd\<lparr>count := count cmd + length (s_indices a)
                                  + sum_list (map (\<lambda>a. length (s_indices a)) subs)\<rparr>]"
    by auto
  with one show ?case
    by (intro exI[of _ p']) (simp add: submit_all_def add.assoc)
qed

text \<open>
  Claim C4, as amended. While a Picture is active, take a push \<open>a\<close> that does not merge
  with what was recorded before it (no command yet, or a last command of another
  material), followed by any number of pushes whose recorded material is the same as
  that of \<open>a\<close>: the same texture, shader and blend mode, and the same uniform object (or no
  uniform in both). They add exactly one command, which starts at the index count the
  Picture had and whose count is the sum of the pushed index counts; the context is not
  touched. A push whose recorded material differs from that of \<open>a\<close> then appends a
  command of its own. Primitive and screen-fixed flag are not part of the recorded
  material.
\<close>

theorem picture_compaction:
  assumes "picture r = Some p"
    and "commands p = [] \<or> \<not> same_material (material (last (commands p))) (material_of a)"
    and "\<forall>b\<in>set rest. same_material (material_of a) (material_of b)"
  shows "\<exists>p'. submit_all (a # rest) (r, c) = (r\<lparr>picture := Some p'\<rparr>, c)
           \<and> commands p'
               = commands p
                 @ [\<lparr>material = material_of a, index = length (indices p),
                     count = sum_list (map (\<lambda>b. length (s_indices b)) (a # rest))\<rparr>]
           \<and> (\<forall>d. \<not> same_material (material_of a) (material_of d) \<longrightarrow>
                (\<exists>p''. submit d (r\<lparr>picture := Some p'\<rparr>, c) = (r\<lparr>picture := Some p''\<rparr>, c)
                   \<and> commands p''
                       = commands p'
                         @ [\<lparr>material = material_of d, index = length (indices p'),
                             count = length (s_indices d)\<rparr>]))"
proof -
  let ?cmd = "\<lparr>material = material_of a, index = length (indices p),
               count = length (s_indices a)\<rparr>"
  let ?p1 = "p\<lparr>vertices := vertices p @ s_vertices a,
               indices := indices p
                          @ map (\<lambda>i. jsadd i (jsdiv (length (vertices p)) (stride r)))
                              (s_indices a),
               commands := commands p @ [?cmd]\<rparr>"
  let ?r1 = "r\<lparr>picture := Some ?p1\<rparr>"
  have one: "submit a (r, c) = (?r1, c)"
    using submit_recording_new[OF assms(1,2)] .
  have "\<exists>p'. submit_all rest (?r1, c) = (?r1\<lparr>picture := Some p'\<rparr>, c)
              \<and> commands p'
                  = commands p
                    @ [?cmd\<lparr>count := count ?cmd
                                        + sum_list (map (\<lambda>a. length (s_indices a)) rest)\<rparr>]"
    using assms(3) recording_run[of ?r1 ?p1 "commands p" ?cmd rest c]
    by simp
  then obtain p' where run: "submit_all rest (?r1, c) = (?r1\<lparr>picture := Some p'\<rparr>, c)"
    and cmds: "commands p'
                  = commands p
                    @ [\<lparr>material = material_of a, index = length (indices p),
                        count = sum_list (map (\<lambda>b. length (s_indices b)) (a # rest))\<rparr>]"
    by auto
  have all: "submit_all (a # rest) (r, c) = (r\<lparr>picture := Some p'\<rparr>, c)"
    using one run by (simp add: submit_all_def)
  have next_push: "\<exists>p''. submit d (r\<lparr>picture := Some p'\<rparr>, c) = (r\<lparr>picture := Some p''\<rparr>, c)
                   \<and> commands p''
                       = commands p'
                         @ [\<lparr>material = material_of d, index = length (indices p'),
                             count = length (s_indices d)\<rparr>]"
    if "\<not> same_material (material_of a) (material_of d)" for d
  proof -
    from that cmds
    have "commands p' = [] \<or> \<not> same_material (material (last (commands p'))) (material_of d)"
      by simp
    from submit_recording_new[of "r\<lparr>picture := Some p'\<rparr>" p' d c, OF _ this]
    show ?thesis
      by (intro exI[of _ "p'\<lparr>vertices := vertices p' @ s_vertices d,
               indices := indices p'
                          @ map (\<lambda>i. jsadd i (jsdiv (length (vertices p')) (stride r)))
                              (s_indices d),
               commands := commands p'
                           @ [\<lparr>material = material_of d, index = length (indices p'),
                               count = length (s_indices d)\<rparr>]\<rparr>"]) simp
  qed
  from all cmds next_push show ?thesis
    by blast
qed

lemma rec0_split:
  "rec0 = (r0\<lparr>picture := Some \<lparr>vertices = [], indices = [], commands = []\<rparr>\<rparr>, c0)"
  by (simp add: rec0_def rc0_split)

theorem picture_compaction_witness:
  "picture (fst rec0) = Some \<lparr>vertices = [], indices = [], commands = []\<rparr>
   \<and> same_material (material_of tri) (material_of dot)
   \<and> map_option commands (picture (fst (submit_all [tri, dot] rec0)))
       = Some [\<lparr>material = material_of tri, index = 0, count = 4\<rparr>]
   \<and> snd (submit_all [tri, dot] rec0) = c0"
proof -
  let ?p = "\<lparr>vertices = [], indices = [], commands = []\<rparr>"
  let ?r = "r0\<lparr>picture := Some ?p\<rparr>"
  have same: "same_material (material_of tri) (material_of dot)"
    by (simp add: same_material_def material_of_def tri_def dot_def same_object_def)
  have "\<exists>p'. submit_all (tri # [dot]) (?r, c0) = (?r\<lparr>picture := Some p'\<rparr>, c0)
           \<and> commands p'
               = commands ?p
                 @ [\<lparr>material = material_of tri, index = length (indices ?p),
                     count = sum_list (map (\<lambda>b. length (s_indices b)) (tri # [dot]))\<rparr>]"
    using picture_compaction[of ?r ?p tri "[dot]" c0] same by simp blast
  then obtain p' where "submit_all [tri, dot] (?r, c0) = (?r\<lparr>picture := Some p'\<rparr>, c0)"
    and "commands p' = [\<lparr>material = material_of tri, index = 0, count = 4\<rparr>]"
    by (auto simp: tri_def dot_def)
  with same show ?thesis
    by (simp add: rec0_split)
qed

text \<open>
  Two pushes that differ in the primitive have different material tuples, yet they are
  recorded as one command; two pushes whose uniforms are different objects with equal
  contents have equal material tuples, yet they are recorded as two commands.
\<close>

theorem picture_compaction_counterexample:
  "\<not> same_tuple tri (tri\<lparr>s_primitive := 1\<rparr>)
   \<and> map_option (\<lambda>p. length (commands p))
        (picture (fst (submit_all [tri, tri\<lparr>s_primitive := 1\<rparr>] rec0))) = Some 1
   \<and> same_tuple (tri\<lparr>s_uniform := Some u1\<rparr>) (tri\<lparr>s_uniform := Some u2\<rparr>)
   \<and> map_option (\<lambda>p. length (commands p))
        (picture (fst (submit_all [tri\<lparr>s_uniform := Some u1\<rparr>, tri\<lparr>s_uniform := Some u2\<rparr>]
                         rec0))) = Some 2"
  by (simp add: rec0_split r0_def submit_all_def submit_def push_def Let_def same_tuple_def
      same_material_def same_object_def deepEq_uniform_def tri_def u1_def u2_def)

end
